theory Spec2Isabelle
  imports Complex_Main
begin

section \<open>Domain model\<close>

text \<open>
  The SQLAlchemy model classes (Company, Warehouse, Product, Inventory, InventoryChange,
  Supplier) are used by both endpoints but declared in neither source file
  (\<^verbatim>\<open># Assume: SQLAlchemy models are defined as per schema above\<close>).
  Every table is a list of rows; a nullable column is an \<open>option\<close> (\<open>None\<close> is SQL
  NULL). The price column holds a value of Python's \<open>Decimal\<close>, kept abstract as the
  type parameter \<open>'d\<close>. Timestamps are integers (microseconds, the resolution of
  \<^verbatim>\<open>datetime\<close>).
\<close>

record Warehouse =
  wh_id :: int
  wh_company_id :: int
  wh_name :: string

text \<open>
  Modelled from the spec: the Product model class. Its columns are the attributes the
  sources read or write (id, name, sku, price, low_stock_thresh, supplier_id); the
  threshold and the supplier reference are nullable, since \<^verbatim>\<open>create_product\<close> sets
  neither and \<^verbatim>\<open>low_stock_alerts\<close> guards the threshold against None.
\<close>

record 'd Product =
  prod_id :: int
  prod_name :: string
  prod_sku :: string
  prod_price :: 'd
  low_stock_thresh :: "int option"
  supplier_id :: "int option"

text \<open>
  Modelled from the spec: the Inventory model class (id, product reference, warehouse
  reference, quantity). The quantity is nullable: \<^verbatim>\<open>low_stock_alerts\<close> guards
  \<^verbatim>\<open>row.current_stock\<close> against None.
\<close>

record Inventory =
  inv_id :: int
  product_id :: int
  warehouse_id :: int
  quantity :: "int option"

text \<open>
  Modelled from the spec: \<^verbatim>\<open>low_stock_alerts\<close> reads the identity of an
  Inventory row under two names, \<^verbatim>\<open>Inventory.id\<close> (join conditions) and
  \<^verbatim>\<open>Inventory.inventory_id\<close> (the key of the sales subquery). The spec gives the
  Inventory entity one identity attribute, so both names denote the same column.
\<close>

definition Inventory_inventory_id :: "Inventory \<Rightarrow> int" where
  "Inventory_inventory_id i = inv_id i"

record InventoryChange =
  chg_id :: int
  inventory_id :: int
  quantity_delta :: int
  change_type :: string
  occurred_at :: int

record Supplier =
  sup_id :: int
  sup_name :: string
  contact_email :: string

record 'd Database =
  warehouses :: "Warehouse list"
  products :: "'d Product list"
  inventories :: "Inventory list"
  inventory_changes :: "InventoryChange list"
  suppliers :: "Supplier list"

section \<open>Part 3: the low-stock alert endpoint\<close>

subsection \<open>SQL expressions\<close>

text \<open>
  A comparison with NULL is NULL, and a WHERE clause keeps a row only when its
  condition is true: \<open>sql_lt\<close> is \<open>None\<close> when either side is NULL, and the filters
  below ask for \<open>Some True\<close>.
\<close>

definition sql_lt :: "int option \<Rightarrow> int option \<Rightarrow> bool option" where
  "sql_lt a b = (case a of None \<Rightarrow> None
                 | Some x \<Rightarrow> (case b of None \<Rightarrow> None | Some y \<Rightarrow> Some (x < y)))"

definition timedelta_days :: "int \<Rightarrow> int" where
  "timedelta_days n = n * 86400 * 1000000"

definition RECENT_SALES_DAYS :: int where
  "RECENT_SALES_DAYS = 30"

subsection \<open>The arithmetic left to the platform\<close>

text \<open>
  Two divisions of the endpoint are computed outside the source: the SQL expression
  \<^verbatim>\<open>func.sum(...) / RECENT_SALES_DAYS\<close> of line 36 (an integer quotient, a decimal
  of the backend's scale or a float, depending on the database and on the version of
  SQLAlchemy) and Python's \<^verbatim>\<open>math.ceil(cur_stock / avg_daily_sales)\<close> of line 84 on
  the value the driver hands back (an int, a Decimal or a float). Both are
  parameters of the model. The average is represented by the rational number that
  the returned value denotes.
\<close>

record Platform =
  sql_div :: "int \<Rightarrow> int \<Rightarrow> rat"
  ceil_div :: "int \<Rightarrow> rat \<Rightarrow> int"

subsection \<open>The sales subquery (lines 32-46)\<close>

text \<open>
  \<^verbatim>\<open>sales_subq\<close>: InventoryChange joined to Inventory on
  \<^verbatim>\<open>InventoryChange.inventory_id == Inventory.id\<close>, filtered on the change type,
  the time window and the company's warehouses, grouped by
  \<^verbatim>\<open>Inventory.inventory_id\<close>. Each group yields
  \<^verbatim>\<open>sum(quantity_delta * -1)\<close> and the platform's SQL quotient of that sum by
  the window length.
\<close>

record SalesRow =
  sr_inventory_id :: int
  total_sales :: int
  avg_daily_sales :: rat

definition sales_joined ::
  "Inventory list \<Rightarrow> InventoryChange list \<Rightarrow> int list \<Rightarrow> int \<Rightarrow> (InventoryChange \<times> Inventory) list" where
  "sales_joined invs chgs warehouse_ids since =
     [(c, i). c \<leftarrow> chgs, i \<leftarrow> invs,
        inventory_id c = inv_id i,
        change_type c = ''sale'',
        occurred_at c \<ge> since,
        warehouse_id i \<in> set warehouse_ids]"

definition sales_group ::
  "Platform \<Rightarrow> (InventoryChange \<times> Inventory) list \<Rightarrow> int \<Rightarrow> SalesRow" where
  "sales_group pf rows k =
     (let grp = filter (\<lambda>(c, i). Inventory_inventory_id i = k) rows;
          s = sum_list (map (\<lambda>(c, i). quantity_delta c * -1) grp)
      in \<lparr> sr_inventory_id = k, total_sales = s,
           avg_daily_sales = sql_div pf s RECENT_SALES_DAYS \<rparr>)"

definition sales_subq ::
  "Platform \<Rightarrow> Inventory list \<Rightarrow> InventoryChange list \<Rightarrow> int list \<Rightarrow> int
   \<Rightarrow> SalesRow list" where
  "sales_subq pf invs chgs warehouse_ids since =
     (let rows = sales_joined invs chgs warehouse_ids since
      in map (sales_group pf rows) (remdups (map (\<lambda>(c, i). Inventory_inventory_id i) rows)))"

subsection \<open>The alert query (lines 49-74)\<close>

record AlertRow =
  r_product_id :: int
  r_product_name :: string
  r_sku :: string
  r_warehouse_id :: int
  r_warehouse_name :: string
  r_current_stock :: "int option"
  r_threshold :: "int option"
  r_supplier_id :: int
  r_supplier_name :: string
  r_contact_email :: string
  r_avg_daily_sales :: "rat option"

text \<open>The left outer join: the matching subquery rows, or one all-NULL row.\<close>

definition outerjoin_sales :: "SalesRow list \<Rightarrow> Inventory \<Rightarrow> SalesRow option list" where
  "outerjoin_sales subq i =
     (case filter (\<lambda>r. inv_id i = sr_inventory_id r) subq of
        [] \<Rightarrow> [None]
      | rs \<Rightarrow> map Some rs)"

definition alert_row ::
  "'d Product \<Rightarrow> Inventory \<Rightarrow> Warehouse \<Rightarrow> SalesRow option \<Rightarrow> Supplier \<Rightarrow> AlertRow" where
  "alert_row p i w sq s =
     \<lparr> r_product_id = prod_id p, r_product_name = prod_name p, r_sku = prod_sku p,
       r_warehouse_id = warehouse_id i, r_warehouse_name = wh_name w,
       r_current_stock = quantity i, r_threshold = low_stock_thresh p,
       r_supplier_id = sup_id s, r_supplier_name = sup_name s,
       r_contact_email = contact_email s,
       r_avg_daily_sales = map_option avg_daily_sales sq \<rparr>"

definition alert_filter ::
  "int list \<Rightarrow> 'd Product \<Rightarrow> Inventory \<Rightarrow> SalesRow option \<Rightarrow> bool" where
  "alert_filter warehouse_ids p i sq =
     (warehouse_id i \<in> set warehouse_ids \<and>
      sql_lt (quantity i) (low_stock_thresh p) = Some True \<and>
      map_option total_sales sq \<noteq> None \<and>
      (case sq of None \<Rightarrow> False | Some r \<Rightarrow> total_sales r > 0))"

definition alert_joined ::
  "'d Database \<Rightarrow> SalesRow list \<Rightarrow> int list \<Rightarrow>
   ('d Product \<times> Inventory \<times> Warehouse \<times> SalesRow option \<times> Supplier) list" where
  "alert_joined db subq warehouse_ids =
     [(p, i, w, sq, s).
        p \<leftarrow> products db,
        i \<leftarrow> inventories db, product_id i = prod_id p,
        w \<leftarrow> warehouses db, warehouse_id i = wh_id w,
        sq \<leftarrow> outerjoin_sales subq i,
        s \<leftarrow> suppliers db, supplier_id p = Some (sup_id s),
        alert_filter warehouse_ids p i sq]"

definition results :: "'d Database \<Rightarrow> SalesRow list \<Rightarrow> int list \<Rightarrow> AlertRow list" where
  "results db subq warehouse_ids =
     map (\<lambda>(p, i, w, sq, s). alert_row p i w sq s) (alert_joined db subq warehouse_ids)"

subsection \<open>Building the alerts (lines 77-108)\<close>

record SupplierInfo =
  si_id :: int
  si_name :: string
  si_contact_email :: string

record Alert =
  a_product_id :: int
  a_product_name :: string
  a_sku :: string
  a_warehouse_id :: int
  a_warehouse_name :: string
  a_current_stock :: int
  a_threshold :: int
  days_until_stockout :: "int option"
  supplier :: SupplierInfo

definition build_alert :: "Platform \<Rightarrow> AlertRow \<Rightarrow> Alert" where
  "build_alert pf row =
     (let avg = r_avg_daily_sales row;
          cur_stock = (case r_current_stock row of Some q \<Rightarrow> q | None \<Rightarrow> 0);
          threshold = (case r_threshold row of Some t \<Rightarrow> t | None \<Rightarrow> 1);
          days = (case avg of
                    None \<Rightarrow> None
                  | Some a \<Rightarrow> if a \<noteq> 0 \<and> a > 0
                              then Some (ceil_div pf cur_stock a) else None)
      in \<lparr> a_product_id = r_product_id row, a_product_name = r_product_name row,
           a_sku = r_sku row, a_warehouse_id = r_warehouse_id row,
           a_warehouse_name = r_warehouse_name row,
           a_current_stock = cur_stock, a_threshold = threshold,
           days_until_stockout = days,
           supplier = \<lparr> si_id = r_supplier_id row, si_name = r_supplier_name row,
                        si_contact_email = r_contact_email row \<rparr> \<rparr>)"

record AlertsResponse =
  alerts :: "Alert list"
  total_alerts :: nat
  status_code :: nat

definition company_warehouse_ids :: "'d Database \<Rightarrow> int \<Rightarrow> int list" where
  "company_warehouse_ids db company_id =
     map wh_id (filter (\<lambda>w. wh_company_id w = company_id) (warehouses db))"

definition company_sales_subq ::
  "Platform \<Rightarrow> 'd Database \<Rightarrow> int \<Rightarrow> int \<Rightarrow> SalesRow list" where
  "company_sales_subq pf db utcnow company_id =
     sales_subq pf (inventories db) (inventory_changes db)
       (company_warehouse_ids db company_id)
       (utcnow - timedelta_days RECENT_SALES_DAYS)"

definition low_stock_results ::
  "Platform \<Rightarrow> 'd Database \<Rightarrow> int \<Rightarrow> int \<Rightarrow> AlertRow list" where
  "low_stock_results pf db utcnow company_id =
     results db (company_sales_subq pf db utcnow company_id)
       (company_warehouse_ids db company_id)"

definition low_stock_alerts ::
  "Platform \<Rightarrow> 'd Database \<Rightarrow> int \<Rightarrow> int \<Rightarrow> AlertsResponse" where
  "low_stock_alerts pf db utcnow company_id =
     (let als = map (build_alert pf) (low_stock_results pf db utcnow company_id)
      in \<lparr> alerts = als, total_alerts = length als, status_code = 200 \<rparr>)"

section \<open>Part 1: the create-product endpoint\<close>

subsection \<open>Request bodies and Python's view of them\<close>

text \<open>
  The parsed JSON body, as \<^verbatim>\<open>request.json\<close> yields it: None, bool, int, float,
  str, list or dict. A float is represented by the rational it denotes (only its
  truth value and its type are ever inspected); a dict by its items.
\<close>

datatype json =
    JNull
  | JBool bool
  | JInt int
  | JFloat rat
  | JStr string
  | JList "json list"
  | JObj "(string \<times> json) list"

datatype py_error = TypeError | KeyError

text \<open>Truth value testing, as \<^verbatim>\<open>request.json or {}\<close> and \<^verbatim>\<open>not warehouse_quantities\<close> use it.\<close>

fun truthy :: "json \<Rightarrow> bool" where
  "truthy JNull = False"
| "truthy (JBool b) = b"
| "truthy (JInt n) = (n \<noteq> 0)"
| "truthy (JFloat r) = (r \<noteq> 0)"
| "truthy (JStr s) = (s \<noteq> [])"
| "truthy (JList xs) = (xs \<noteq> [])"
| "truthy (JObj kvs) = (kvs \<noteq> [])"

fun is_substring :: "string \<Rightarrow> string \<Rightarrow> bool" where
  "is_substring xs [] = (xs = [])"
| "is_substring xs (y # ys) = (take (length xs) (y # ys) = xs \<or> is_substring xs ys)"

text \<open>
  \<^verbatim>\<open>field in data\<close> for a str \<open>field\<close>: key membership in a dict, element membership
  in a list, substring test in a str; TypeError on anything else.
\<close>

fun py_contains :: "string \<Rightarrow> json \<Rightarrow> py_error + bool" where
  "py_contains f (JObj kvs) = Inr (f \<in> set (map fst kvs))"
| "py_contains f (JList xs) = Inr (JStr f \<in> set xs)"
| "py_contains f (JStr s) = Inr (is_substring f s)"
| "py_contains f _ = Inl TypeError"

text \<open>\<^verbatim>\<open>data[key]\<close> for a str \<open>key\<close>.\<close>

fun py_getitem :: "json \<Rightarrow> string \<Rightarrow> py_error + json" where
  "py_getitem (JObj kvs) k = (case map_of kvs k of None \<Rightarrow> Inl KeyError | Some v \<Rightarrow> Inr v)"
| "py_getitem _ k = Inl TypeError"

text \<open>\<^verbatim>\<open>isinstance(v, int)\<close>: bool is a subclass of int.\<close>

fun isinstance_int :: "json \<Rightarrow> bool" where
  "isinstance_int (JInt n) = True"
| "isinstance_int (JBool b) = True"
| "isinstance_int _ = False"

text \<open>The integer an int or a bool stands for (\<^verbatim>\<open>True == 1\<close>, \<^verbatim>\<open>False == 0\<close>).\<close>

fun py_int_value :: "json \<Rightarrow> int option" where
  "py_int_value (JInt n) = Some n"
| "py_int_value (JBool b) = Some (if b then 1 else 0)"
| "py_int_value _ = None"

subsection \<open>Responses\<close>

datatype body =
    Error string
  | Created int
  | InternalServerError

type_synonym response = "body \<times> nat"

text \<open>An exception no handler of the view catches: the framework answers 500.\<close>

definition unhandled :: response where
  "unhandled = (InternalServerError, 500)"

subsection \<open>The store and the session\<close>

text \<open>
  Modelled from the spec: the store "provides atomic commit/rollback and constraint
  enforcement". An INSERT is refused with an IntegrityError when it breaks a NOT NULL,
  uniqueness (SKU; product and warehouse pair) or foreign-key constraint, and with
  another database error when a value cannot be bound to the column's type. A
  generated id is larger than every id of the table.
\<close>

datatype db_error = IntegrityError string | OtherDBError string

datatype event =
    Select_product_by_sku json
  | Insert_product
  | Insert_inventory
  | Commit
  | Rollback

definition fresh_id :: "int list \<Rightarrow> int" where
  "fresh_id ids = fold max ids 0 + 1"

fun bind_str :: "string \<Rightarrow> json \<Rightarrow> db_error + string" where
  "bind_str col (JStr s) = Inr s"
| "bind_str col JNull = Inl (IntegrityError (''NOT NULL constraint failed: '' @ col))"
| "bind_str col _ = Inl (OtherDBError (''type mismatch: '' @ col))"

fun bind_int :: "string \<Rightarrow> json \<Rightarrow> db_error + int" where
  "bind_int col (JInt n) = Inr n"
| "bind_int col (JBool b) = Inr (if b then 1 else 0)"
| "bind_int col JNull = Inl (IntegrityError (''NOT NULL constraint failed: '' @ col))"
| "bind_int col _ = Inl (OtherDBError (''type mismatch: '' @ col))"

type_synonym 'd new_product = "json \<times> json \<times> 'd"
type_synonym new_inventory = "int \<times> json \<times> json"

definition insert_product ::
  "'d Database \<Rightarrow> 'd new_product \<Rightarrow> db_error + ('d Database \<times> int)" where
  "insert_product db np =
     (case np of (name, sku, price) \<Rightarrow>
      (case bind_str ''product.name'' name of
         Inl e \<Rightarrow> Inl e
       | Inr n \<Rightarrow>
         (case bind_str ''product.sku'' sku of
            Inl e \<Rightarrow> Inl e
          | Inr k \<Rightarrow>
            if k \<in> set (map prod_sku (products db))
            then Inl (IntegrityError ''UNIQUE constraint failed: product.sku'')
            else (let new_id = fresh_id (map prod_id (products db));
                      row = \<lparr> prod_id = new_id, prod_name = n, prod_sku = k,
                              prod_price = price, low_stock_thresh = None,
                              supplier_id = None \<rparr>
                  in Inr (db\<lparr> products := products db @ [row] \<rparr>, new_id)))))"

definition insert_inventory :: "'d Database \<Rightarrow> new_inventory \<Rightarrow> db_error + 'd Database" where
  "insert_inventory db ni =
     (case ni of (pid, wid, qty) \<Rightarrow>
      (case bind_int ''inventory.warehouse_id'' wid of
         Inl e \<Rightarrow> Inl e
       | Inr w \<Rightarrow>
         (case bind_int ''inventory.quantity'' qty of
            Inl e \<Rightarrow> Inl e
          | Inr q \<Rightarrow>
            if w \<in> set (map wh_id (warehouses db)) \<and> pid \<in> set (map prod_id (products db))
            then (if (pid, w) \<in> set (map (\<lambda>i. (product_id i, warehouse_id i)) (inventories db))
                  then Inl (IntegrityError
                              ''UNIQUE constraint failed: inventory.product_id, inventory.warehouse_id'')
                  else (let row = \<lparr> inv_id = fresh_id (map inv_id (inventories db)),
                                    product_id = pid, warehouse_id = w, quantity = Some q \<rparr>
                        in Inr (db\<lparr> inventories := inventories db @ [row] \<rparr>)))
            else Inl (IntegrityError ''FOREIGN KEY constraint failed''))))"

text \<open>
  The session: the committed database, the uncommitted state of the open transaction
  (if one is open), the objects added and not yet flushed, and the log of the
  statements sent to the store.
\<close>

record 'd Session =
  database :: "'d Database"
  txn :: "'d Database option"
  new_products :: "'d new_product list"
  new_inventories :: "new_inventory list"
  trace :: "event list"

definition new_session :: "'d Database \<Rightarrow> 'd Session" where
  "new_session db =
     \<lparr> database = db, txn = None, new_products = [], new_inventories = [], trace = [] \<rparr>"

definition working :: "'d Session \<Rightarrow> 'd Database" where
  "working s = (case txn s of None \<Rightarrow> database s | Some t \<Rightarrow> t)"

text \<open>\<^verbatim>\<open>Product.query.filter_by(sku=v).first()\<close>: a SELECT on the store.\<close>

definition query_product_by_sku ::
  "'d Session \<Rightarrow> json \<Rightarrow> (db_error + 'd Product option) \<times> 'd Session" where
  "query_product_by_sku s v =
     (let s' = s\<lparr> trace := trace s @ [Select_product_by_sku v] \<rparr>
      in case v of
           JStr k \<Rightarrow> (Inr (find (\<lambda>p. prod_sku p = k) (products (working s))), s')
         | JNull \<Rightarrow> (Inr None, s')
         | _ \<Rightarrow> (Inl (OtherDBError ''type mismatch: product.sku''), s'))"

definition session_add :: "'d Session \<Rightarrow> 'd new_product \<Rightarrow> 'd Session" where
  "session_add s np = s\<lparr> new_products := new_products s @ [np] \<rparr>"

definition session_add_all :: "'d Session \<Rightarrow> new_inventory list \<Rightarrow> 'd Session" where
  "session_add_all s nis = s\<lparr> new_inventories := new_inventories s @ nis \<rparr>"

text \<open>
  A flush sends one INSERT per pending object, products first, each into the open
  transaction; the first refused INSERT raises and leaves the transaction open.
\<close>

fun flush_products ::
  "'d Session \<Rightarrow> 'd new_product list \<Rightarrow> int list \<Rightarrow> (db_error + int list) \<times> 'd Session" where
  "flush_products s [] ids = (Inr ids, s\<lparr> new_products := [] \<rparr>)"
| "flush_products s (np # nps) ids =
     (let s' = s\<lparr> trace := trace s @ [Insert_product] \<rparr>
      in case insert_product (working s) np of
           Inl e \<Rightarrow> (Inl e, s'\<lparr> txn := Some (working s) \<rparr>)
         | Inr (db', new_id) \<Rightarrow>
             flush_products (s'\<lparr> txn := Some db', new_products := nps \<rparr>) nps (ids @ [new_id]))"

fun flush_inventories ::
  "'d Session \<Rightarrow> new_inventory list \<Rightarrow> db_error option \<times> 'd Session" where
  "flush_inventories s [] = (None, s\<lparr> new_inventories := [] \<rparr>)"
| "flush_inventories s (ni # nis) =
     (let s' = s\<lparr> trace := trace s @ [Insert_inventory] \<rparr>
      in case insert_inventory (working s) ni of
           Inl e \<Rightarrow> (Some e, s'\<lparr> txn := Some (working s) \<rparr>)
         | Inr db' \<Rightarrow> flush_inventories (s'\<lparr> txn := Some db', new_inventories := nis \<rparr>) nis)"

definition session_flush :: "'d Session \<Rightarrow> (db_error + int list) \<times> 'd Session" where
  "session_flush s =
     (case flush_products s (new_products s) [] of
        (Inl e, s1) \<Rightarrow> (Inl e, s1)
      | (Inr ids, s1) \<Rightarrow>
          (case flush_inventories s1 (new_inventories s1) of
             (Some e, s2) \<Rightarrow> (Inl e, s2)
           | (None, s2) \<Rightarrow> (Inr ids, s2)))"

definition session_commit :: "'d Session \<Rightarrow> db_error option \<times> 'd Session" where
  "session_commit s =
     (case session_flush s of
        (Inl e, s1) \<Rightarrow> (Some e, s1)
      | (Inr ids, s1) \<Rightarrow>
          (None, s1\<lparr> database := working s1, txn := None, trace := trace s1 @ [Commit] \<rparr>))"

definition session_rollback :: "'d Session \<Rightarrow> 'd Session" where
  "session_rollback s =
     s\<lparr> txn := None, new_products := [], new_inventories := [],
        trace := trace s @ [Rollback] \<rparr>"

subsection \<open>\<^verbatim>\<open>create_product\<close> (lines 34-96)\<close>

definition required_fields :: "string list" where
  "required_fields = [''name'', ''sku'', ''price'', ''warehouse_quantities'']"

text \<open>
  Lines 39-41: the first required field that is not in \<open>data\<close>, if any; the membership
  test itself raises on a body that is no container.
\<close>

fun first_missing :: "json \<Rightarrow> string list \<Rightarrow> py_error + string option" where
  "first_missing data [] = Inr None"
| "first_missing data (f # fs) =
     (case py_contains f data of
        Inl e \<Rightarrow> Inl e
      | Inr True \<Rightarrow> first_missing data fs
      | Inr False \<Rightarrow> Inr (Some f))"

text \<open>
  Lines 44-47: \<^verbatim>\<open>Decimal(str(data['price']))\<close> under a handler for InvalidOperation,
  TypeError and ValueError. \<open>Decimal_str v\<close> is the value of \<^verbatim>\<open>Decimal(str(v))\<close>, or
  \<open>None\<close> when it raises one of the three; the parser of Python's decimal module is a
  parameter of the model.
\<close>

definition parse_price :: "(json \<Rightarrow> 'd option) \<Rightarrow> json \<Rightarrow> response + 'd" where
  "parse_price Decimal_str data =
     (case py_getitem data ''price'' of
        Inl TypeError \<Rightarrow> Inl (Error ''Invalid price format.'', 400)
      | Inl KeyError \<Rightarrow> Inl unhandled
      | Inr v \<Rightarrow>
          (case Decimal_str v of
             None \<Rightarrow> Inl (Error ''Invalid price format.'', 400)
           | Some price \<Rightarrow> Inr price))"

text \<open>Lines 59-63: the condition under which an entry is rejected.\<close>

definition wq_entry_rejected :: "json \<Rightarrow> bool" where
  "wq_entry_rejected w =
     (case w of
        JObj kvs \<Rightarrow>
          (case map_of kvs ''warehouse_id'' of
             None \<Rightarrow> True
           | Some wid \<Rightarrow>
               (case map_of kvs ''quantity'' of
                  None \<Rightarrow> True
                | Some q \<Rightarrow>
                    if isinstance_int q
                    then (case py_int_value q of None \<Rightarrow> True | Some n \<Rightarrow> n < 0)
                    else True))
      | _ \<Rightarrow> True)"

text \<open>Lines 56-63: the entries when the list is accepted, the 400 response otherwise.\<close>

definition validate_warehouse_quantities :: "json \<Rightarrow> response + json list" where
  "validate_warehouse_quantities wq =
     (case wq of
        JList ws \<Rightarrow>
          if ws = [] then Inl (Error ''warehouse_quantities must be a non-empty list.'', 400)
          else if list_ex wq_entry_rejected ws
          then Inl (Error ''Each warehouse entry must have warehouse_id and non-negative integer quantity.'', 400)
          else Inr ws
      | _ \<Rightarrow> Inl (Error ''warehouse_quantities must be a non-empty list.'', 400))"

definition entry_field :: "json \<Rightarrow> string \<Rightarrow> json" where
  "entry_field w k = (case py_getitem w k of Inr v \<Rightarrow> v | Inl e \<Rightarrow> JNull)"

text \<open>Lines 89-94: both handlers roll back, then answer 400 or 500 with \<^verbatim>\<open>str(e)\<close>.\<close>

definition handle_db_error :: "db_error \<Rightarrow> 'd Session \<Rightarrow> response \<times> 'd Session" where
  "handle_db_error e s =
     (case e of
        IntegrityError m \<Rightarrow>
          ((Error ''Database error, possibly invalid warehouse_id or duplicate entry.'', 400),
           session_rollback s)
      | OtherDBError m \<Rightarrow> ((Error m, 500), session_rollback s))"

text \<open>Lines 66-96: the body of the try statement and the final return.\<close>

definition transactional_write ::
  "'d Session \<Rightarrow> json \<Rightarrow> json \<Rightarrow> 'd \<Rightarrow> json list \<Rightarrow> response \<times> 'd Session" where
  "transactional_write s name sku price warehouse_quantities =
     (case session_flush (session_add s (name, sku, price)) of
        (Inl e, s1) \<Rightarrow> handle_db_error e s1
      | (Inr ids, s1) \<Rightarrow>
          (case ids of
             [new_id] \<Rightarrow>
               (let inventory_entries =
                      map (\<lambda>wq. (new_id, entry_field wq ''warehouse_id'',
                                 entry_field wq ''quantity'')) warehouse_quantities
                in case session_commit (session_add_all s1 inventory_entries) of
                     (Some e, s2) \<Rightarrow> handle_db_error e s2
                   | (None, s2) \<Rightarrow> ((Created new_id, 201), s2))
           | _ \<Rightarrow> (unhandled, s1)))"

text \<open>Line 35: \<^verbatim>\<open>data = request.json or {}\<close>.\<close>

definition request_data :: "json \<Rightarrow> json" where
  "request_data request_json = (if truthy request_json then request_json else JObj [])"

text \<open>
  The whole view. \<open>others\<close> is what concurrent requests commit between this request's
  SKU pre-check and its INSERT (the identity when the request runs alone).
\<close>

definition create_product_among ::
  "(json \<Rightarrow> 'd option) \<Rightarrow> ('d Database \<Rightarrow> 'd Database) \<Rightarrow> 'd Database \<Rightarrow> json
   \<Rightarrow> response \<times> 'd Session" where
  "create_product_among Decimal_str others db request_json =
     (let s = new_session db;
          data = request_data request_json
      in case first_missing data required_fields of
           Inl e \<Rightarrow> (unhandled, s)
         | Inr (Some field) \<Rightarrow> ((Error (''Missing required field: '' @ field), 400), s)
         | Inr None \<Rightarrow>
         (case parse_price Decimal_str data of
            Inl r \<Rightarrow> (r, s)
          | Inr price \<Rightarrow>
            (case query_product_by_sku s (entry_field data ''sku'') of
               (Inl e, s1) \<Rightarrow> (unhandled, s1)
             | (Inr (Some existing), s1) \<Rightarrow> ((Error ''SKU must be unique.'', 409), s1)
             | (Inr None, s1) \<Rightarrow>
               (case validate_warehouse_quantities (entry_field data ''warehouse_quantities'') of
                  Inl r \<Rightarrow> (r, s1)
                | Inr ws \<Rightarrow>
                    transactional_write (s1\<lparr> database := others (database s1) \<rparr>)
                      (entry_field data ''name'') (entry_field data ''sku'') price ws))))"

definition create_product ::
  "(json \<Rightarrow> 'd option) \<Rightarrow> 'd Database \<Rightarrow> json \<Rightarrow> response \<times> 'd Session" where
  "create_product Decimal_str db request_json =
     create_product_among Decimal_str (\<lambda>d. d) db request_json"

section \<open>Notions used in the properties\<close>

text \<open>
  The ledger rows the sales subquery selects for the inventory id \<open>k\<close>: sale-type
  entries of \<open>k\<close> that occurred at or after \<open>since\<close>.
\<close>

definition in_window :: "int \<Rightarrow> int \<Rightarrow> InventoryChange \<Rightarrow> bool" where
  "in_window since k c =
     (inventory_id c = k \<and> change_type c = ''sale'' \<and> since \<le> occurred_at c)"

definition window_sales :: "InventoryChange list \<Rightarrow> int \<Rightarrow> int \<Rightarrow> InventoryChange list" where
  "window_sales chgs since k = filter (in_window since k) chgs"

text \<open>
  The spec's wording of the aggregate (section 4.3): "sums the magnitude of negative
  deltas (units sold)".
\<close>

definition spec_units_sold :: "InventoryChange list \<Rightarrow> int" where
  "spec_units_sold cs =
     sum_list (map (\<lambda>c. \<bar>quantity_delta c\<bar>) (filter (\<lambda>c. quantity_delta c < 0) cs))"

text \<open>
  Two platforms for the examples. The first divides in decimals and rounds the
  quotient to ten places, and its Python side divides and rounds up exactly; the
  second divides integers, as SQL does on a backend where the sum and the constant
  30 are both integers.
\<close>

definition decimal_platform :: Platform where
  "decimal_platform =
     \<lparr> sql_div = (\<lambda>a b. of_int ((2 * a * 10000000000 + b) div (2 * b)) / 10000000000),
       ceil_div = (\<lambda>q a. \<lceil>of_int q / a\<rceil>) \<rparr>"

definition integer_platform :: Platform where
  "integer_platform =
     \<lparr> sql_div = (\<lambda>a b. of_int (a div b)),
       ceil_div = (\<lambda>q a. \<lceil>of_int q / a\<rceil>) \<rparr>"

text \<open>
  A database for the examples: company 7 with one warehouse, one product stocked
  there (inventory row 3), one supplier, and a ledger.
\<close>

definition one_row_db ::
  "int option \<Rightarrow> int option \<Rightarrow> int option \<Rightarrow> InventoryChange list \<Rightarrow> unit Database" where
  "one_row_db thresh qty sup_ref chgs =
     \<lparr> warehouses = [\<lparr> wh_id = 1, wh_company_id = 7, wh_name = ''Main'' \<rparr>],
       products = [\<lparr> prod_id = 1, prod_name = ''Widget'', prod_sku = ''W-1'', prod_price = (),
                     low_stock_thresh = thresh, supplier_id = sup_ref \<rparr>],
       inventories = [\<lparr> inv_id = 3, product_id = 1, warehouse_id = 1, quantity = qty \<rparr>],
       inventory_changes = chgs,
       suppliers = [\<lparr> sup_id = 4, sup_name = ''Acme'', contact_email = ''acme@example.com'' \<rparr>] \<rparr>"

definition sale_of :: "int \<Rightarrow> int \<Rightarrow> int \<Rightarrow> InventoryChange" where
  "sale_of n delta t =
     \<lparr> chg_id = n, inventory_id = 3, quantity_delta = delta, change_type = ''sale'',
       occurred_at = t \<rparr>"

text \<open>
  How a pending Inventory object shows in the row the store keeps for it, and what a
  rolled-back write leaves behind: the committed database as it was, no open
  transaction, nothing pending, and a log that ends with the rollback.
\<close>

definition inventory_row_of :: "int \<Rightarrow> json \<Rightarrow> Inventory \<Rightarrow> bool" where
  "inventory_row_of pid w row =
     (product_id row = pid \<and>
      py_int_value (entry_field w ''warehouse_id'') = Some (warehouse_id row) \<and>
      py_int_value (entry_field w ''quantity'') = quantity row)"

definition stored_as :: "new_inventory \<Rightarrow> Inventory \<Rightarrow> bool" where
  "stored_as ni row =
     (case ni of (pid, wid, qty) \<Rightarrow>
        product_id row = pid \<and> py_int_value wid = Some (warehouse_id row) \<and>
        py_int_value qty = quantity row)"

definition rolled_back :: "'d Session \<Rightarrow> 'd Session \<Rightarrow> bool" where
  "rolled_back s s' =
     (database s' = database s \<and> txn s' = None \<and> new_products s' = [] \<and>
      new_inventories s' = [] \<and> Insert_product \<in> set (trace s') \<and>
      last (trace s') = Rollback)"

text \<open>
  The INSERTs of a flush of pending Inventory objects, in order, up to the first one
  the store refuses; and the error of the first INSERT of the whole transactional
  write that the store refuses, if any: the product's, or else the first refused one
  among the inventory rows.
\<close>

fun insert_all :: "'d Database \<Rightarrow> new_inventory list \<Rightarrow> db_error + 'd Database" where
  "insert_all db [] = Inr db"
| "insert_all db (ni # nis) =
     (case insert_inventory db ni of Inl e \<Rightarrow> Inl e | Inr db' \<Rightarrow> insert_all db' nis)"

definition refused_insert ::
  "'d Database \<Rightarrow> 'd new_product \<Rightarrow> json list \<Rightarrow> db_error option" where
  "refused_insert db np ws =
     (case insert_product db np of
        Inl e \<Rightarrow> Some e
      | Inr (db1, pid) \<Rightarrow>
          (case insert_all db1
                  (map (\<lambda>wq. (pid, entry_field wq ''warehouse_id'',
                              entry_field wq ''quantity'')) ws) of
             Inl e \<Rightarrow> Some e
           | Inr db2 \<Rightarrow> None))"

text \<open>The answer of the IntegrityError handler (line 91).\<close>

definition generic_400 :: response where
  "generic_400 =
     (Error ''Database error, possibly invalid warehouse_id or duplicate entry.'', 400)"

text \<open>The session right after the SKU pre-check: one SELECT sent, nothing else.\<close>

definition prechecked :: "'d Database \<Rightarrow> json \<Rightarrow> 'd Session" where
  "prechecked db data =
     (new_session db)\<lparr> trace := [Select_product_by_sku (entry_field data ''sku'')] \<rparr>"

text \<open>
  For the examples of the create-product endpoint: a stand-in for
  \<^verbatim>\<open>Decimal(str(v))\<close> that accepts exactly the JSON integers (whose \<^verbatim>\<open>str\<close> is always a
  decimal numeral), and request bodies for the product "Bolt".
\<close>

definition int_prices :: "json \<Rightarrow> int option" where
  "int_prices v = (case v of JInt n \<Rightarrow> Some n | _ \<Rightarrow> None)"

definition empty_store :: "int Database" where
  "empty_store =
     \<lparr> warehouses = [\<lparr> wh_id = 1, wh_company_id = 7, wh_name = ''Main'' \<rparr>,
                      \<lparr> wh_id = 2, wh_company_id = 7, wh_name = ''Annex'' \<rparr>],
       products = [], inventories = [], inventory_changes = [], suppliers = [] \<rparr>"

definition bolt_row :: "int Product" where
  "bolt_row = \<lparr> prod_id = 1, prod_name = ''Bolt (other)'', prod_sku = ''B-7'', prod_price = 3,
                low_stock_thresh = None, supplier_id = None \<rparr>"

definition bolt_request :: "json \<Rightarrow> json" where
  "bolt_request wq =
     JObj [(''name'', JStr ''Bolt''), (''sku'', JStr ''B-7''), (''price'', JInt 10),
           (''warehouse_quantities'', wq)]"

definition wq_entry :: "json \<Rightarrow> json \<Rightarrow> json" where
  "wq_entry wid qty = JObj [(''warehouse_id'', wid), (''quantity'', qty)]"

text \<open>A second example: two products in one warehouse, the second without a supplier.\<close>

definition two_product_db :: "unit Database" where
  "two_product_db =
     \<lparr> warehouses = [\<lparr> wh_id = 1, wh_company_id = 7, wh_name = ''Main'' \<rparr>],
       products = [\<lparr> prod_id = 1, prod_name = ''Widget'', prod_sku = ''W-1'', prod_price = (),
                     low_stock_thresh = Some 10, supplier_id = Some 4 \<rparr>,
                   \<lparr> prod_id = 2, prod_name = ''Gadget'', prod_sku = ''G-2'', prod_price = (),
                     low_stock_thresh = Some 10, supplier_id = None \<rparr>],
       inventories = [\<lparr> inv_id = 3, product_id = 1, warehouse_id = 1, quantity = Some 5 \<rparr>,
                      \<lparr> inv_id = 4, product_id = 2, warehouse_id = 1, quantity = Some 2 \<rparr>],
       inventory_changes =
         [sale_of 1 (-3) 100,
          \<lparr> chg_id = 2, inventory_id = 4, quantity_delta = -6, change_type = ''sale'',
            occurred_at = 120 \<rparr>],
       suppliers = [\<lparr> sup_id = 4, sup_name = ''Acme'', contact_email = ''acme@example.com'' \<rparr>] \<rparr>"

section \<open>Properties of the sales subquery\<close>

lemmas eval_defs =
  one_row_db_def sale_of_def low_stock_alerts_def low_stock_results_def results_def
  alert_joined_def company_sales_subq_def company_warehouse_ids_def sales_subq_def
  sales_joined_def sales_group_def outerjoin_sales_def alert_filter_def alert_row_def
  build_alert_def sql_lt_def timedelta_days_def RECENT_SALES_DAYS_def
  Inventory_inventory_id_def Let_def window_sales_def in_window_def spec_units_sold_def
  decimal_platform_def integer_platform_def


lemma filter_unique_key:
  "distinct (map f xs) \<Longrightarrow> x \<in> set xs \<Longrightarrow> filter (\<lambda>y. f y = f x) xs = [x]"
proof (induction xs)
  case Nil
  then show ?case by simp
next
  case (Cons a xs)
  show ?case
  proof (cases "a = x")
    case True
    with Cons.prems have "\<forall>y\<in>set xs. f y \<noteq> f x" by (auto simp: image_iff)
    then have "filter (\<lambda>y. f y = f x) xs = []" by (simp add: filter_empty_conv)
    with True show ?thesis by simp
  next
    case False
    with Cons.prems have mem: "x \<in> set xs" and d: "distinct (map f xs)" by auto
    from Cons.prems mem have "f a \<noteq> f x" by (auto simp: image_iff)
    with Cons.IH[OF d mem] show ?thesis by simp
  qed
qed

lemma sales_joined_group:
  assumes "distinct (map inv_id invs)" and "i \<in> set invs" and "warehouse_id i \<in> set wids"
  shows "map fst (filter (\<lambda>(c, j). Inventory_inventory_id j = inv_id i)
             (sales_joined invs chgs wids since))
         = window_sales chgs since (inv_id i)"
proof (induction chgs)
  case Nil
  show ?case by (simp add: sales_joined_def window_sales_def)
next
  case (Cons c cs)
  have step: "sales_joined invs (c # cs) wids since =
      concat (map (\<lambda>j. if inventory_id c = inv_id j \<and> change_type c = ''sale'' \<and> since \<le> occurred_at c
                           \<and> warehouse_id j \<in> set wids then [(c, j)] else []) invs)
      @ sales_joined invs cs wids since"
    unfolding sales_joined_def
    by (simp, rule arg_cong[where f = concat], rule map_cong, auto)
  have inner: "map fst (filter (\<lambda>(c', j). Inventory_inventory_id j = inv_id i)
      (concat (map (\<lambda>j. if inventory_id c = inv_id j \<and> change_type c = ''sale'' \<and> since \<le> occurred_at c
                           \<and> warehouse_id j \<in> set wids then [(c, j)] else []) invs)))
      = (if in_window since (inv_id i) c then [c] else [])"
  proof -
    have "filter (\<lambda>(c', j). Inventory_inventory_id j = inv_id i)
      (concat (map (\<lambda>j. if inventory_id c = inv_id j \<and> change_type c = ''sale'' \<and> since \<le> occurred_at c
                           \<and> warehouse_id j \<in> set wids then [(c, j)] else []) invs))
      = map (\<lambda>j. (c, j)) (filter (\<lambda>j. inv_id j = inv_id i \<and> in_window since (inv_id i) c \<and> warehouse_id j \<in> set wids) invs)"
      by (induction invs) (auto simp: Inventory_inventory_id_def in_window_def)
    also have "filter (\<lambda>j. inv_id j = inv_id i \<and> in_window since (inv_id i) c \<and> warehouse_id j \<in> set wids) invs
       = filter (\<lambda>j. in_window since (inv_id i) c \<and> warehouse_id j \<in> set wids) (filter (\<lambda>j. inv_id j = inv_id i) invs)"
      by (simp add: conj_commute)
    also have "\<dots> = (if in_window since (inv_id i) c then [i] else [])"
      using assms by (simp add: filter_unique_key)
    finally show ?thesis by simp
  qed
  show ?case
    unfolding step filter_append map_append inner Cons.IH
    by (simp add: window_sales_def)
qed

lemma sales_subq_key_iff:
  "k \<in> set (map sr_inventory_id (sales_subq pf invs chgs wids since)) \<longleftrightarrow>
   (\<exists>i\<in>set invs. inv_id i = k \<and> warehouse_id i \<in> set wids \<and> window_sales chgs since k \<noteq> [])"
  by (auto simp: sales_subq_def Let_def sales_group_def comp_def sales_joined_def
        Inventory_inventory_id_def window_sales_def in_window_def filter_empty_conv
        split: if_splits; blast)

lemma sales_subq_row:
  "r \<in> set (sales_subq pf invs chgs wids since) \<Longrightarrow>
   r = sales_group pf (sales_joined invs chgs wids since) (sr_inventory_id r)"
  by (auto simp: sales_subq_def Let_def sales_group_def)


lemma sales_group_value:
  assumes "distinct (map inv_id invs)" and "i \<in> set invs" and "warehouse_id i \<in> set wids"
  shows "sales_group pf (sales_joined invs chgs wids since) (inv_id i) =
         \<lparr> sr_inventory_id = inv_id i,
           total_sales = sum_list (map (\<lambda>c. - quantity_delta c) (window_sales chgs since (inv_id i))),
           avg_daily_sales =
             sql_div pf (sum_list (map (\<lambda>c. - quantity_delta c) (window_sales chgs since (inv_id i)))) 30 \<rparr>"
proof -
  let ?grp = "filter (\<lambda>(c, j). Inventory_inventory_id j = inv_id i) (sales_joined invs chgs wids since)"
  have "sum_list (map (\<lambda>(c, j). quantity_delta c * -1) ?grp)
        = sum_list (map (\<lambda>c. - quantity_delta c) (map fst ?grp))"
    by (simp add: comp_def split_def)
  also have "\<dots> = sum_list (map (\<lambda>c. - quantity_delta c) (window_sales chgs since (inv_id i)))"
    by (simp only: sales_joined_group[OF assms])
  finally show ?thesis
    by (simp add: sales_group_def Let_def RECENT_SALES_DAYS_def)
qed


lemma sales_subq_member:
  assumes "distinct (map inv_id invs)" and "i \<in> set invs" and "warehouse_id i \<in> set wids"
    and "window_sales chgs since (inv_id i) \<noteq> []"
  shows "\<lparr> sr_inventory_id = inv_id i,
           total_sales = sum_list (map (\<lambda>c. - quantity_delta c) (window_sales chgs since (inv_id i))),
           avg_daily_sales =
             sql_div pf (sum_list (map (\<lambda>c. - quantity_delta c) (window_sales chgs since (inv_id i)))) 30 \<rparr>
         \<in> set (sales_subq pf invs chgs wids since)"
proof -
  from assms have "inv_id i \<in> set (map sr_inventory_id (sales_subq pf invs chgs wids since))"
    unfolding sales_subq_key_iff by blast
  then obtain r where r: "r \<in> set (sales_subq pf invs chgs wids since)" "sr_inventory_id r = inv_id i"
    by auto
  from sales_subq_row[OF r(1)] r(2)
  have "r = sales_group pf (sales_joined invs chgs wids since) (inv_id i)" by simp
  with r(1) sales_group_value[OF assms(1-3)] show ?thesis by simp
qed




section \<open>Properties of the alert query\<close>

lemma alert_joined_iff:
  "(p, i, w, sq, s) \<in> set (alert_joined db subq wids) \<longleftrightarrow>
   p \<in> set (products db) \<and> i \<in> set (inventories db) \<and> product_id i = prod_id p \<and>
   w \<in> set (warehouses db) \<and> warehouse_id i = wh_id w \<and>
   sq \<in> set (outerjoin_sales subq i) \<and>
   s \<in> set (suppliers db) \<and> supplier_id p = Some (sup_id s) \<and>
   alert_filter wids p i sq"
  by (auto simp: alert_joined_def)

lemma outerjoin_sales_set:
  "set (outerjoin_sales subq i) =
   (if filter (\<lambda>r. inv_id i = sr_inventory_id r) subq = [] then {None}
    else Some ` set (filter (\<lambda>r. inv_id i = sr_inventory_id r) subq))"
  by (cases "filter (\<lambda>r. inv_id i = sr_inventory_id r) subq")
     (simp_all add: outerjoin_sales_def)

lemma outerjoin_sales_Some:
  "Some r \<in> set (outerjoin_sales subq i) \<longleftrightarrow> r \<in> set subq \<and> sr_inventory_id r = inv_id i"
  unfolding outerjoin_sales_set by (auto simp: filter_empty_conv)

lemma company_warehouse_ids_iff:
  "wid \<in> set (company_warehouse_ids db cid) \<longleftrightarrow>
   (\<exists>w\<in>set (warehouses db). wh_id w = wid \<and> wh_company_id w = cid)"
  by (auto simp: company_warehouse_ids_def)

lemma alert_filter_iff:
  "sq \<in> set (outerjoin_sales subq i) \<and> alert_filter wids p i sq \<longleftrightarrow>
   (\<exists>r. sq = Some r \<and> r \<in> set subq \<and> sr_inventory_id r = inv_id i \<and> 0 < total_sales r) \<and>
   warehouse_id i \<in> set wids \<and>
   (\<exists>q t. quantity i = Some q \<and> low_stock_thresh p = Some t \<and> q < t)"
  by (cases sq) (auto simp: alert_filter_def outerjoin_sales_Some sql_lt_def split: option.splits)

lemma low_stock_results_iff:
  "row \<in> set (low_stock_results pf db utcnow cid) \<longleftrightarrow>
   (\<exists>p i w r s.
      row = alert_row p i w (Some r) s \<and>
      p \<in> set (products db) \<and> i \<in> set (inventories db) \<and> product_id i = prod_id p \<and>
      w \<in> set (warehouses db) \<and> warehouse_id i = wh_id w \<and>
      (\<exists>w'\<in>set (warehouses db). wh_id w' = warehouse_id i \<and> wh_company_id w' = cid) \<and>
      r \<in> set (company_sales_subq pf db utcnow cid) \<and> sr_inventory_id r = inv_id i \<and>
      0 < total_sales r \<and>
      (\<exists>q t. quantity i = Some q \<and> low_stock_thresh p = Some t \<and> q < t) \<and>
      s \<in> set (suppliers db) \<and> supplier_id p = Some (sup_id s))"
  (is "?L \<longleftrightarrow> ?R")
proof
  assume ?L
  then obtain p i w sq s where
    row: "row = alert_row p i w sq s" and
    mem: "(p, i, w, sq, s) \<in> set (alert_joined db (company_sales_subq pf db utcnow cid)
                                   (company_warehouse_ids db cid))"
    by (auto simp: low_stock_results_def results_def)
  from mem have j: "p \<in> set (products db)" "i \<in> set (inventories db)" "product_id i = prod_id p"
    "w \<in> set (warehouses db)" "warehouse_id i = wh_id w"
    "s \<in> set (suppliers db)" "supplier_id p = Some (sup_id s)"
    and f: "sq \<in> set (outerjoin_sales (company_sales_subq pf db utcnow cid) i) \<and>
            alert_filter (company_warehouse_ids db cid) p i sq"
    by (simp_all add: alert_joined_iff)
  from f obtain r where r: "sq = Some r" "r \<in> set (company_sales_subq pf db utcnow cid)"
      "sr_inventory_id r = inv_id i" "0 < total_sales r"
    and wh: "warehouse_id i \<in> set (company_warehouse_ids db cid)"
    and lt: "\<exists>q t. quantity i = Some q \<and> low_stock_thresh p = Some t \<and> q < t"
    unfolding alert_filter_iff by blast
  from wh have w': "\<exists>w'\<in>set (warehouses db). wh_id w' = warehouse_id i \<and> wh_company_id w' = cid"
    unfolding company_warehouse_ids_iff .
  from row r j w' lt show ?R by blast
next
  assume ?R
  then obtain p i w r s where
    row: "row = alert_row p i w (Some r) s" and
    j: "p \<in> set (products db)" "i \<in> set (inventories db)" "product_id i = prod_id p"
    "w \<in> set (warehouses db)" "warehouse_id i = wh_id w"
    "s \<in> set (suppliers db)" "supplier_id p = Some (sup_id s)" and
    w': "\<exists>w'\<in>set (warehouses db). wh_id w' = warehouse_id i \<and> wh_company_id w' = cid" and
    r: "r \<in> set (company_sales_subq pf db utcnow cid)" "sr_inventory_id r = inv_id i"
      "0 < total_sales r" and
    lt: "\<exists>q t. quantity i = Some q \<and> low_stock_thresh p = Some t \<and> q < t"
    by blast
  from w' have wh: "warehouse_id i \<in> set (company_warehouse_ids db cid)"
    unfolding company_warehouse_ids_iff .
  have "Some r \<in> set (outerjoin_sales (company_sales_subq pf db utcnow cid) i) \<and>
        alert_filter (company_warehouse_ids db cid) p i (Some r)"
    unfolding alert_filter_iff using r wh lt by blast
  with j have "(p, i, w, Some r, s) \<in> set (alert_joined db (company_sales_subq pf db utcnow cid)
                                   (company_warehouse_ids db cid))"
    by (simp add: alert_joined_iff)
  then have "alert_row p i w (Some r) s \<in> set (low_stock_results pf db utcnow cid)"
    unfolding low_stock_results_def results_def by force
  with row show ?L by simp
qed

lemma no_recent_sales_no_alert:
  fixes db :: "'d Database"
  assumes "row \<in> set (low_stock_results pf db utcnow cid)"
  shows "\<exists>i\<in>set (inventories db). r_warehouse_id row = warehouse_id i \<and>
           r_current_stock row = quantity i \<and>
           window_sales (inventory_changes db) (utcnow - timedelta_days 30) (inv_id i) \<noteq> []"
proof -
  from assms obtain p :: "'d Product" and i w r s where
    row: "row = alert_row p i w (Some r) s" and i: "i \<in> set (inventories db)" and
    r: "r \<in> set (company_sales_subq pf db utcnow cid)" "sr_inventory_id r = inv_id i"
    unfolding low_stock_results_iff by blast
  from r have "inv_id i \<in> set (map sr_inventory_id
      (sales_subq pf (inventories db) (inventory_changes db) (company_warehouse_ids db cid)
         (utcnow - timedelta_days 30)))"
    by (force simp: company_sales_subq_def RECENT_SALES_DAYS_def)
  then have "window_sales (inventory_changes db) (utcnow - timedelta_days 30) (inv_id i) \<noteq> []"
    unfolding sales_subq_key_iff by blast
  with row i show ?thesis by (auto simp: alert_row_def)
qed

lemma sufficient_stock_no_alert:
  assumes "row \<in> set (low_stock_results pf db utcnow cid)"
  shows "\<exists>q t. r_current_stock row = Some q \<and> r_threshold row = Some t \<and> q < t"
  using assms unfolding low_stock_results_iff by (auto simp: alert_row_def)

lemma sales_subq_positive_iff:
  assumes "distinct (map inv_id invs)" and "i \<in> set invs"
  shows "(\<exists>r\<in>set (sales_subq pf invs chgs wids since).
            sr_inventory_id r = inv_id i \<and> 0 < total_sales r)
         \<longleftrightarrow>
         (warehouse_id i \<in> set wids \<and> window_sales chgs since (inv_id i) \<noteq> [] \<and>
          0 < sum_list (map (\<lambda>c. - quantity_delta c) (window_sales chgs since (inv_id i))))"
  (is "?L \<longleftrightarrow> ?R")
proof
  assume ?L
  then obtain r where r: "r \<in> set (sales_subq pf invs chgs wids since)"
    "sr_inventory_id r = inv_id i" "0 < total_sales r" by blast
  from r(1,2) have "inv_id i \<in> set (map sr_inventory_id (sales_subq pf invs chgs wids since))"
    by force
  then obtain j where j: "j \<in> set invs" "inv_id j = inv_id i" "warehouse_id j \<in> set wids"
    "window_sales chgs since (inv_id i) \<noteq> []"
    unfolding sales_subq_key_iff by blast
  from assms j(1,2) have "j = i" by (metis distinct_map inj_onD)
  with j have wh: "warehouse_id i \<in> set wids" by simp
  from sales_subq_row[OF r(1)] r(2)
  have "r = sales_group pf (sales_joined invs chgs wids since) (inv_id i)" by simp
  with sales_group_value[OF assms wh, of pf chgs since] r(3)
  have "0 < sum_list (map (\<lambda>c. - quantity_delta c) (window_sales chgs since (inv_id i)))"
    by simp
  with wh j(4) show ?R by simp
next
  assume ?R
  then have wh: "warehouse_id i \<in> set wids" and ne: "window_sales chgs since (inv_id i) \<noteq> []"
    and pos: "0 < sum_list (map (\<lambda>c. - quantity_delta c) (window_sales chgs since (inv_id i)))"
    by simp_all
  from sales_subq_member[OF assms wh ne, of pf] pos show ?L
    by force
qed

text \<open>
  C3 (as stated): an inventory row yields an alert row if and only if its warehouse
  belongs to the company, its quantity is below the product's threshold and its
  aggregated sales are positive. The three conditions hold below (warehouse 1 is
  company 7's, 5 < 10, total sales 3), and the query returns nothing: the product
  references no supplier, and the query inner-joins Supplier.
\<close>

theorem missing_supplier_counterexample:
  "(\<exists>w\<in>set (warehouses (one_row_db (Some 10) (Some 5) None [sale_of 1 (-3) 100])).
       wh_id w = 1 \<and> wh_company_id w = 7)
   \<and> inventories (one_row_db (Some 10) (Some 5) None [sale_of 1 (-3) 100])
       = [\<lparr> inv_id = 3, product_id = 1, warehouse_id = 1, quantity = Some 5 \<rparr>]
   \<and> map low_stock_thresh (products (one_row_db (Some 10) (Some 5) None [sale_of 1 (-3) 100]))
       = [Some 10]
   \<and> map total_sales
         (company_sales_subq decimal_platform
            (one_row_db (Some 10) (Some 5) None [sale_of 1 (-3) 100]) 200 7) = [3]
   \<and> low_stock_results decimal_platform
         (one_row_db (Some 10) (Some 5) None [sale_of 1 (-3) 100]) 200 7 = []"
  by (simp add: eval_defs)

text \<open>
  C3 (amended): for an inventory row \<open>i\<close> with a quantity, of a product \<open>p\<close> with a
  threshold (inventory ids, product ids, and the product and warehouse pairs of
  inventory rows, being unique), the query returns a row for \<open>p\<close> in \<open>i\<close>'s warehouse
  if and only if the warehouse belongs to the company, the quantity is strictly
  below the threshold, \<open>i\<close> has a sale-type ledger entry dated at or after 30 days
  before now and the negated deltas of those entries sum to a strictly positive
  total, and the product's supplier reference matches a Supplier row. In particular
  a row with no sale-type entry in the window is absent even if understocked, and a
  row with quantity at or above the threshold is absent whatever its sales.
\<close>

theorem low_stock_alert_iff:
  assumes i: "i \<in> set (inventories db)" and p: "p \<in> set (products db)"
    and ip: "product_id i = prod_id p"
    and inv_ids: "distinct (map inv_id (inventories db))"
    and uniq_p: "\<forall>q\<in>set (products db). prod_id q = prod_id p \<longrightarrow> q = p"
    and uniq_i: "\<forall>j\<in>set (inventories db).
           product_id j = product_id i \<and> warehouse_id j = warehouse_id i \<longrightarrow> j = i"
    and qty: "quantity i = Some q" and thr: "low_stock_thresh p = Some t"
  shows "((\<exists>row\<in>set (low_stock_results pf db utcnow cid).
             r_product_id row = prod_id p \<and> r_warehouse_id row = warehouse_id i)
          \<longleftrightarrow>
          ((\<exists>w\<in>set (warehouses db). wh_id w = warehouse_id i \<and> wh_company_id w = cid) \<and>
           q < t \<and>
           window_sales (inventory_changes db) (utcnow - timedelta_days 30) (inv_id i) \<noteq> [] \<and>
           0 < sum_list (map (\<lambda>c. - quantity_delta c)
                 (window_sales (inventory_changes db) (utcnow - timedelta_days 30) (inv_id i))) \<and>
           (\<exists>s\<in>set (suppliers db). supplier_id p = Some (sup_id s))))
       \<and> (window_sales (inventory_changes db) (utcnow - timedelta_days 30) (inv_id i) = []
            \<longrightarrow> \<not> (\<exists>row\<in>set (low_stock_results pf db utcnow cid).
                     r_product_id row = prod_id p \<and> r_warehouse_id row = warehouse_id i))
       \<and> (t \<le> q
            \<longrightarrow> \<not> (\<exists>row\<in>set (low_stock_results pf db utcnow cid).
                     r_product_id row = prod_id p \<and> r_warehouse_id row = warehouse_id i))"
proof -
  let ?since = "utcnow - timedelta_days 30"
  let ?win = "window_sales (inventory_changes db) ?since (inv_id i)"
  let ?L = "\<exists>row\<in>set (low_stock_results pf db utcnow cid).
             r_product_id row = prod_id p \<and> r_warehouse_id row = warehouse_id i"
  let ?W = "\<exists>w\<in>set (warehouses db). wh_id w = warehouse_id i \<and> wh_company_id w = cid"
  let ?S = "\<exists>s\<in>set (suppliers db). supplier_id p = Some (sup_id s)"
  let ?Q = "\<exists>r\<in>set (company_sales_subq pf db utcnow cid).
              sr_inventory_id r = inv_id i \<and> 0 < total_sales r"
  have sub: "company_sales_subq pf db utcnow cid =
             sales_subq pf (inventories db) (inventory_changes db)
               (company_warehouse_ids db cid) ?since"
    by (simp add: company_sales_subq_def RECENT_SALES_DAYS_def)
  have Q: "?Q \<longleftrightarrow> (warehouse_id i \<in> set (company_warehouse_ids db cid) \<and> ?win \<noteq> [] \<and>
                  0 < sum_list (map (\<lambda>c. - quantity_delta c) ?win))"
    unfolding sub by (rule sales_subq_positive_iff[OF inv_ids i])
  have forward: "?W \<and> q < t \<and> ?Q \<and> ?S" if ?L
  proof -
    from that obtain row where row: "row \<in> set (low_stock_results pf db utcnow cid)"
      "r_product_id row = prod_id p" "r_warehouse_id row = warehouse_id i" by blast
    from row(1) obtain p' i' w r s where
      eq: "row = alert_row p' i' w (Some r) s" and
      j: "p' \<in> set (products db)" "i' \<in> set (inventories db)" "product_id i' = prod_id p'"
      "s \<in> set (suppliers db)" "supplier_id p' = Some (sup_id s)" and
      w': "\<exists>w'\<in>set (warehouses db). wh_id w' = warehouse_id i' \<and> wh_company_id w' = cid" and
      r: "r \<in> set (company_sales_subq pf db utcnow cid)" "sr_inventory_id r = inv_id i'"
        "0 < total_sales r" and
      lt: "\<exists>q t. quantity i' = Some q \<and> low_stock_thresh p' = Some t \<and> q < t"
      unfolding low_stock_results_iff by blast
    from eq row(2,3) have ids: "prod_id p' = prod_id p" "warehouse_id i' = warehouse_id i"
      by (simp_all add: alert_row_def)
    from uniq_p j(1) ids(1) have p': "p' = p" by blast
    from ip uniq_i j(2,3) ids p' have i': "i' = i" by auto
    from lt qty thr have "q < t" unfolding p' i' by simp
    with j w' r show ?thesis unfolding p' i' by blast
  qed
  have backward: ?L if "?W" "q < t" "?Q" "?S"
  proof -
    from that obtain w r s where
      w: "w \<in> set (warehouses db)" "wh_id w = warehouse_id i" "wh_company_id w = cid" and
      r: "r \<in> set (company_sales_subq pf db utcnow cid)" "sr_inventory_id r = inv_id i"
        "0 < total_sales r" and
      s: "s \<in> set (suppliers db)" "supplier_id p = Some (sup_id s)"
      by blast
    from that(2) qty thr
    have lt: "\<exists>q t. quantity i = Some q \<and> low_stock_thresh p = Some t \<and> q < t" by simp
    have "alert_row p i w (Some r) s \<in> set (low_stock_results pf db utcnow cid)"
      unfolding low_stock_results_iff using i p ip w lt r s by (metis (no_types, lifting))
    moreover have "r_product_id (alert_row p i w (Some r) s) = prod_id p"
      "r_warehouse_id (alert_row p i w (Some r) s) = warehouse_id i"
      by (simp_all add: alert_row_def)
    ultimately show ?thesis by blast
  qed
  have W: "?W \<longleftrightarrow> warehouse_id i \<in> set (company_warehouse_ids db cid)"
    unfolding company_warehouse_ids_iff by blast
  have iff: "?L \<longleftrightarrow> (?W \<and> q < t \<and> ?win \<noteq> [] \<and>
                 0 < sum_list (map (\<lambda>c. - quantity_delta c) ?win) \<and> ?S)"
    using forward backward Q W by blast
  from iff have no_sales: "?win = [] \<longrightarrow> \<not> ?L" by blast
  from iff have enough: "t \<le> q \<longrightarrow> \<not> ?L" by auto
  from iff no_sales enough show ?thesis by (intro conjI)
qed

theorem low_stock_alert_iff_witness:
  "(\<exists>row\<in>set (low_stock_results decimal_platform
                  (one_row_db (Some 10) (Some 5) (Some 4) [sale_of 1 (-3) 100]) 200 7).
      r_product_id row = 1 \<and> r_warehouse_id row = 1)
   \<and> \<not> (\<exists>row\<in>set (low_stock_results decimal_platform
                  (one_row_db (Some 10) (Some 5) (Some 4) []) 200 7).
      r_product_id row = 1 \<and> r_warehouse_id row = 1)"
proof -
  let ?i = "\<lparr> inv_id = 3, product_id = 1, warehouse_id = 1, quantity = Some 5 \<rparr>"
  let ?p = "\<lparr> prod_id = 1, prod_name = ''Widget'', prod_sku = ''W-1'', prod_price = (),
             low_stock_thresh = Some 10, supplier_id = Some 4 \<rparr>"
  let ?db = "one_row_db (Some 10) (Some 5) (Some 4) [sale_of 1 (-3) 100]"
  let ?dbe = "one_row_db (Some 10) (Some 5) (Some 4) []"
  have win: "window_sales (inventory_changes ?db) (200 - timedelta_days 30) (inv_id ?i)
             = [sale_of 1 (-3) 100]"
    by (simp add: one_row_db_def window_sales_def in_window_def sale_of_def)
       (simp add: timedelta_days_def)
  note t1 = low_stock_alert_iff[where db = ?db and i = ?i and p = ?p and q = 5 and t = 10
      and pf = decimal_platform and utcnow = 200 and cid = 7]
  have a: "\<exists>row\<in>set (low_stock_results decimal_platform ?db 200 7).
             r_product_id row = prod_id ?p \<and> r_warehouse_id row = warehouse_id ?i"
  proof -
    have rhs: "(\<exists>w\<in>set (warehouses ?db). wh_id w = warehouse_id ?i \<and> wh_company_id w = 7) \<and>
           (5::int) < 10 \<and>
           window_sales (inventory_changes ?db) (200 - timedelta_days 30) (inv_id ?i) \<noteq> [] \<and>
           0 < sum_list (map (\<lambda>c. - quantity_delta c)
                 (window_sales (inventory_changes ?db) (200 - timedelta_days 30) (inv_id ?i))) \<and>
           (\<exists>s\<in>set (suppliers ?db). supplier_id ?p = Some (sup_id s))"
      unfolding win by (simp add: one_row_db_def sale_of_def)
    have pre: "?i \<in> set (inventories ?db)" "?p \<in> set (products ?db)"
      "product_id ?i = prod_id ?p" "distinct (map inv_id (inventories ?db))"
      "\<forall>q\<in>set (products ?db). prod_id q = prod_id ?p \<longrightarrow> q = ?p"
      "\<forall>j\<in>set (inventories ?db).
           product_id j = product_id ?i \<and> warehouse_id j = warehouse_id ?i \<longrightarrow> j = ?i"
      "quantity ?i = Some 5" "low_stock_thresh ?p = Some 10"
      by (simp_all add: one_row_db_def)
    from t1[OF pre] rhs show ?thesis by blast
  qed
  note t2 = low_stock_alert_iff[where db = ?dbe and i = ?i and p = ?p and q = 5 and t = 10
      and pf = decimal_platform and utcnow = 200 and cid = 7]
  have b: "\<not> (\<exists>row\<in>set (low_stock_results decimal_platform ?dbe 200 7).
             r_product_id row = prod_id ?p \<and> r_warehouse_id row = warehouse_id ?i)"
  proof -
    have w0: "window_sales (inventory_changes ?dbe) (200 - timedelta_days 30) (inv_id ?i) = []"
      by (simp add: one_row_db_def window_sales_def)
    have pre: "?i \<in> set (inventories ?dbe)" "?p \<in> set (products ?dbe)"
      "product_id ?i = prod_id ?p" "distinct (map inv_id (inventories ?dbe))"
      "\<forall>q\<in>set (products ?dbe). prod_id q = prod_id ?p \<longrightarrow> q = ?p"
      "\<forall>j\<in>set (inventories ?dbe).
           product_id j = product_id ?i \<and> warehouse_id j = warehouse_id ?i \<longrightarrow> j = ?i"
      "quantity ?i = Some 5" "low_stock_thresh ?p = Some 10"
      by (simp_all add: one_row_db_def)
    from t2[OF pre] w0 show ?thesis by blast
  qed
  from a b show ?thesis by simp
qed

lemma null_threshold_no_row:
  "row \<in> set (low_stock_results pf db utcnow cid) \<Longrightarrow> r_threshold row \<noteq> None"
  unfolding low_stock_results_iff by (auto simp: alert_row_def)

lemma build_alert_threshold_fallback:
  "r_threshold row = None \<Longrightarrow> a_threshold (build_alert pf row) = 1"
  by (simp add: build_alert_def Let_def)




text \<open>
  C6: a product whose stored threshold is NULL is to take part in alerting with an
  effective threshold of 1. With stock 0 and a recent sale, the query returns no
  alert when the threshold is NULL (the comparison \<open>quantity < NULL\<close> is not true),
  while the same product with the threshold stored as 1 is alerted, with threshold 1.
\<close>

theorem null_threshold_never_alerts:
  "alerts (low_stock_alerts pf (one_row_db None (Some 0) (Some 4) [sale_of 1 (-3) 100]) 200 7)
     = []
   \<and> map a_threshold
       (alerts (low_stock_alerts pf (one_row_db (Some 1) (Some 0) (Some 4) [sale_of 1 (-3) 100])
          200 7)) = [1]"
  by (simp add: eval_defs)

text \<open>
  C10: a product (of unique id) whose supplier reference matches no Supplier row has
  no alert, whatever its stock and sales; and every alert returned carries the id,
  name and contact email of a Supplier row that the alert's product references.
\<close>

theorem supplier_inner_join:
  "(\<forall>p\<in>set (products db).
      (\<forall>q\<in>set (products db). prod_id q = prod_id p \<longrightarrow> q = p) \<longrightarrow>
      (\<forall>s\<in>set (suppliers db). supplier_id p \<noteq> Some (sup_id s)) \<longrightarrow>
      (\<forall>a\<in>set (alerts (low_stock_alerts pf db utcnow cid)). a_product_id a \<noteq> prod_id p))
   \<and> (\<forall>a\<in>set (alerts (low_stock_alerts pf db utcnow cid)).
        \<exists>s\<in>set (suppliers db). \<exists>p\<in>set (products db).
          prod_id p = a_product_id a \<and> supplier_id p = Some (sup_id s) \<and>
          supplier a = \<lparr> si_id = sup_id s, si_name = sup_name s,
                         si_contact_email = contact_email s \<rparr>)"
proof -
  have alert: "\<exists>p i w r s. a = build_alert pf (alert_row p i w (Some r) s) \<and>
        p \<in> set (products db) \<and> s \<in> set (suppliers db) \<and> supplier_id p = Some (sup_id s)"
    if "a \<in> set (alerts (low_stock_alerts pf db utcnow cid))" for a
  proof -
    from that obtain row where "row \<in> set (low_stock_results pf db utcnow cid)" "a = build_alert pf row"
      by (auto simp: low_stock_alerts_def Let_def)
    then show ?thesis unfolding low_stock_results_iff by blast
  qed
  have fields: "a_product_id (build_alert pf (alert_row p i w sq s)) = prod_id p"
    "supplier (build_alert pf (alert_row p i w sq s)) =
       \<lparr> si_id = sup_id s, si_name = sup_name s, si_contact_email = contact_email s \<rparr>"
    for p :: "'a Product" and i w sq s
    by (simp_all add: build_alert_def alert_row_def Let_def)
  show ?thesis
  proof (intro conjI ballI impI)
    fix p a
    assume p: "p \<in> set (products db)"
      and uniq: "\<forall>q\<in>set (products db). prod_id q = prod_id p \<longrightarrow> q = p"
      and nos: "\<forall>s\<in>set (suppliers db). supplier_id p \<noteq> Some (sup_id s)"
      and a: "a \<in> set (alerts (low_stock_alerts pf db utcnow cid))"
    from alert[OF a] obtain p' i w r s where
      *: "a = build_alert pf (alert_row p' i w (Some r) s)" "p' \<in> set (products db)"
      "s \<in> set (suppliers db)" "supplier_id p' = Some (sup_id s)" by blast
    show "a_product_id a \<noteq> prod_id p"
    proof
      assume "a_product_id a = prod_id p"
      with * fields(1) have "prod_id p' = prod_id p" by simp
      with uniq *(2) have "p' = p" by blast
      with nos *(3,4) show False by blast
    qed
  next
    fix a
    assume a: "a \<in> set (alerts (low_stock_alerts pf db utcnow cid))"
    from alert[OF a] obtain p i w r s where
      *: "a = build_alert pf (alert_row p i w (Some r) s)" "p \<in> set (products db)"
      "s \<in> set (suppliers db)" "supplier_id p = Some (sup_id s)" by blast
    with fields show "\<exists>s\<in>set (suppliers db). \<exists>p\<in>set (products db).
          prod_id p = a_product_id a \<and> supplier_id p = Some (sup_id s) \<and>
          supplier a = \<lparr> si_id = sup_id s, si_name = sup_name s,
                         si_contact_email = contact_email s \<rparr>"
      by (metis (no_types, lifting))
  qed
qed

theorem supplier_inner_join_witness:
  "map a_product_id (alerts (low_stock_alerts decimal_platform two_product_db 200 7)) = [1]
   \<and> map supplier (alerts (low_stock_alerts decimal_platform two_product_db 200 7))
       = [\<lparr> si_id = 4, si_name = ''Acme'', si_contact_email = ''acme@example.com'' \<rparr>]
   \<and> company_sales_subq decimal_platform two_product_db 200 7
       = [\<lparr> sr_inventory_id = 3, total_sales = 3, avg_daily_sales = 1 / 10 \<rparr>,
          \<lparr> sr_inventory_id = 4, total_sales = 6, avg_daily_sales = 1 / 5 \<rparr>]
   \<and> \<not> (\<exists>a\<in>set (alerts (low_stock_alerts decimal_platform two_product_db 200 7)). a_product_id a = 2)"
proof -
  have ev: "map a_product_id (alerts (low_stock_alerts decimal_platform two_product_db 200 7)) = [1]"
    "map supplier (alerts (low_stock_alerts decimal_platform two_product_db 200 7))
       = [\<lparr> si_id = 4, si_name = ''Acme'', si_contact_email = ''acme@example.com'' \<rparr>]"
    "company_sales_subq decimal_platform two_product_db 200 7
       = [\<lparr> sr_inventory_id = 3, total_sales = 3, avg_daily_sales = 1 / 10 \<rparr>,
          \<lparr> sr_inventory_id = 4, total_sales = 6, avg_daily_sales = 1 / 5 \<rparr>]"
    by (simp_all add: two_product_db_def eval_defs)
  let ?p2 = "\<lparr> prod_id = 2, prod_name = ''Gadget'', prod_sku = ''G-2'', prod_price = (),
                     low_stock_thresh = Some 10, supplier_id = None \<rparr>"
  have "?p2 \<in> set (products two_product_db)"
    "\<forall>q\<in>set (products two_product_db). prod_id q = prod_id ?p2 \<longrightarrow> q = ?p2"
    "\<forall>s\<in>set (suppliers two_product_db). supplier_id ?p2 \<noteq> Some (sup_id s)"
    by (simp_all add: two_product_db_def)
  with supplier_inner_join[of two_product_db decimal_platform 200 7]
  have "\<forall>a\<in>set (alerts (low_stock_alerts decimal_platform two_product_db 200 7)). a_product_id a \<noteq> prod_id ?p2"
    by blast
  then have "\<not> (\<exists>a\<in>set (alerts (low_stock_alerts decimal_platform two_product_db 200 7)). a_product_id a = 2)"
    by simp
  with ev show ?thesis by simp
qed

section \<open>Properties of the session and of the transactional write\<close>

lemma flush_products_database:
  "flush_products s nps ids = (r, s') \<Longrightarrow> database s' = database s"
proof (induction nps arbitrary: s ids)
  case Nil
  then show ?case by auto
next
  case (Cons np nps)
  then show ?case
    by (auto simp: Let_def split: sum.splits prod.splits)
qed

lemma flush_inventories_database:
  "flush_inventories s nis = (r, s') \<Longrightarrow> database s' = database s"
proof (induction nis arbitrary: s)
  case Nil
  then show ?case by auto
next
  case (Cons ni nis)
  then show ?case
    by (auto simp: Let_def split: sum.splits prod.splits)
qed

lemma session_flush_database:
  "session_flush s = (r, s') \<Longrightarrow> database s' = database s"
  by (auto simp: session_flush_def split: sum.splits prod.splits option.splits
      dest!: flush_products_database flush_inventories_database)

lemma session_commit_failed:
  "session_commit s = (Some e, s') \<Longrightarrow> database s' = database s"
  by (auto simp: session_commit_def split: sum.splits prod.splits
      dest!: session_flush_database)

lemma handle_db_error_rollback:
  assumes "handle_db_error e s = (resp, s')"
  shows "database s' = database s" and "txn s' = None"
    and "new_products s' = []" and "new_inventories s' = []"
    and "trace s' = trace s @ [Rollback]"
    and "snd resp = 400 \<or> snd resp = 500"
    and "(snd resp = 400) = (\<exists>m. e = IntegrityError m)"
  using assms by (auto simp: handle_db_error_def session_rollback_def split: db_error.splits)

lemma flush_products_single:
  assumes "flush_products s [np] [] = (r, s1)"
  shows "database s1 = database s" and "new_inventories s1 = new_inventories s"
    and "trace s1 = trace s @ [Insert_product]"
    and "(case insert_product (working s) np of
           Inl e \<Rightarrow> r = Inl e \<and> txn s1 = Some (working s)
         | Inr (db', pid) \<Rightarrow> r = Inr [pid] \<and> txn s1 = Some db' \<and> new_products s1 = [])"
  using assms by (auto simp: Let_def split: sum.splits prod.splits)


lemma working_simps:
  "working (s\<lparr> trace := t \<rparr>) = working s"
  "working (s\<lparr> new_products := nps \<rparr>) = working s"
  "working (s\<lparr> new_inventories := nis \<rparr>) = working s"
  "working (s\<lparr> txn := Some d \<rparr>) = d"
  by (simp_all add: working_def split: option.splits)

lemma bind_int_value: "bind_int col v = Inr n \<Longrightarrow> py_int_value v = Some n"
  by (cases v) auto

lemma insert_inventory_effect:
  assumes "insert_inventory db ni = Inr db'"
  shows "\<exists>row. inventories db' = inventories db @ [row] \<and> stored_as ni row"
    and "products db' = products db" and "warehouses db' = warehouses db"
    and "inventory_changes db' = inventory_changes db" and "suppliers db' = suppliers db"
  using assms
  by (auto simp: insert_inventory_def stored_as_def Let_def
      split: prod.splits sum.splits if_splits dest!: bind_int_value)

lemma flush_inventories_effect:
  "flush_inventories s nis = (None, s') \<Longrightarrow>
   database s' = database s \<and> new_products s' = new_products s \<and> new_inventories s' = [] \<and>
   trace s' = trace s @ replicate (length nis) Insert_inventory \<and>
   (\<exists>rows. inventories (working s') = inventories (working s) @ rows \<and>
           list_all2 stored_as nis rows) \<and>
   products (working s') = products (working s) \<and>
   warehouses (working s') = warehouses (working s) \<and>
   inventory_changes (working s') = inventory_changes (working s) \<and>
   suppliers (working s') = suppliers (working s)"
proof (induction nis arbitrary: s)
  case Nil
  then show ?case by (auto simp: working_simps)
next
  case (Cons ni nis)
  from Cons.prems obtain db' where
    ins: "insert_inventory (working s) ni = Inr db'" and
    rest: "flush_inventories (s\<lparr> trace := trace s @ [Insert_inventory], txn := Some db',
                                 new_inventories := nis \<rparr>) nis = (None, s')"
    by (auto simp: Let_def split: sum.splits)
  let ?s1 = "s\<lparr> trace := trace s @ [Insert_inventory], txn := Some db', new_inventories := nis \<rparr>"
  have w1: "working ?s1 = db'" by (simp add: working_def)
  from insert_inventory_effect[OF ins] obtain row where
    row: "inventories db' = inventories (working s) @ [row]" "stored_as ni row" and
    same: "products db' = products (working s)" "warehouses db' = warehouses (working s)"
      "inventory_changes db' = inventory_changes (working s)"
      "suppliers db' = suppliers (working s)"
    by blast
  from Cons.IH[OF rest] obtain rows where
    ih: "database s' = database s" "new_products s' = new_products s" "new_inventories s' = []"
      "trace s' = trace s @ Insert_inventory # replicate (length nis) Insert_inventory"
      "inventories (working s') = inventories db' @ rows" "list_all2 stored_as nis rows"
      "products (working s') = products db'" "warehouses (working s') = warehouses db'"
      "inventory_changes (working s') = inventory_changes db'"
      "suppliers (working s') = suppliers db'"
    unfolding w1 by auto
  have "inventories (working s') = inventories (working s) @ (row # rows)"
    "list_all2 stored_as (ni # nis) (row # rows)"
    using ih(5,6) row by simp_all
  then have "\<exists>rows. inventories (working s') = inventories (working s) @ rows \<and>
           list_all2 stored_as (ni # nis) rows" by blast
  with ih same show ?case by simp
qed

lemma insert_product_effect:
  assumes "insert_product db (name, sku, price) = Inr (db', pid)"
  shows "\<exists>p. products db' = products db @ [p] \<and> prod_id p = pid \<and>
             name = JStr (prod_name p) \<and> sku = JStr (prod_sku p) \<and> prod_price p = price"
    and "inventories db' = inventories db" and "warehouses db' = warehouses db"
    and "inventory_changes db' = inventory_changes db" and "suppliers db' = suppliers db"
    and "pid = fresh_id (map prod_id (products db))"
proof -
  from assms obtain n k where n: "bind_str ''product.name'' name = Inr n"
    and k: "bind_str ''product.sku'' sku = Inr k"
    by (auto simp: insert_product_def split: sum.splits)
  from n have name: "name = JStr n" by (cases name) auto
  from k have sku: "sku = JStr k" by (cases sku) auto
  from assms name sku show
    "\<exists>p. products db' = products db @ [p] \<and> prod_id p = pid \<and>
             name = JStr (prod_name p) \<and> sku = JStr (prod_sku p) \<and> prod_price p = price"
    "inventories db' = inventories db" "warehouses db' = warehouses db"
    "inventory_changes db' = inventory_changes db" "suppliers db' = suppliers db"
    "pid = fresh_id (map prod_id (products db))"
    by (auto simp: insert_product_def Let_def split: if_splits)
qed

lemma session_flush_add:
  assumes "new_products s = []" and "new_inventories s = []"
    and "session_flush (session_add s np) = (r, s1)"
  shows "database s1 = database s" and "trace s1 = trace s @ [Insert_product]"
    and "new_inventories s1 = []"
    and "(case insert_product (working s) np of
           Inl e \<Rightarrow> r = Inl e
         | Inr (db', pid) \<Rightarrow> r = Inr [pid] \<and> txn s1 = Some db' \<and> new_products s1 = [])"
  using assms
  by (auto simp: session_flush_def session_add_def Let_def working_simps
      split: sum.splits prod.splits option.splits)

lemma session_commit_effect:
  assumes "session_commit s = (None, s')" and "new_products s = []"
  shows "database s' = working s' \<and> txn s' = None \<and> new_products s' = [] \<and>
         new_inventories s' = [] \<and>
         trace s' = trace s @ replicate (length (new_inventories s)) Insert_inventory @ [Commit] \<and>
         (\<exists>rows. inventories (database s') = inventories (working s) @ rows \<and>
                 list_all2 stored_as (new_inventories s) rows) \<and>
         products (database s') = products (working s) \<and>
         warehouses (database s') = warehouses (working s) \<and>
         inventory_changes (database s') = inventory_changes (working s) \<and>
         suppliers (database s') = suppliers (working s)"
proof -
  from assms obtain s1 s2 ids where
    fp: "flush_products s [] [] = (Inr ids, s1)" and
    fi: "flush_inventories s1 (new_inventories s1) = (None, s2)" and
    s': "s' = s2\<lparr> database := working s2, txn := None, trace := trace s2 @ [Commit] \<rparr>"
    by (auto simp: session_commit_def session_flush_def
        split: sum.splits prod.splits option.splits)
  from fp have s1: "s1 = s\<lparr> new_products := [] \<rparr>" by simp
  have w: "working s' = working s2" "database s' = working s2"
    unfolding s' by (simp_all add: working_def)
  from flush_inventories_effect[OF fi] s1 s' show ?thesis
    unfolding w by (auto simp: working_simps)
qed


lemma flush_inventories_trace:
  "flush_inventories s nis = (r, s') \<Longrightarrow> \<exists>t. trace s' = trace s @ t"
proof (induction nis arbitrary: s)
  case Nil
  then show ?case by auto
next
  case (Cons ni nis)
  show ?case
  proof (cases "insert_inventory (working s) ni")
    case (Inl e)
    with Cons.prems show ?thesis by (auto simp: Let_def)
  next
    case (Inr db')
    with Cons.prems have
      "flush_inventories (s\<lparr> trace := trace s @ [Insert_inventory], txn := Some db',
                                 new_inventories := nis \<rparr>) nis = (r, s')"
      by (simp add: Let_def)
    from Cons.IH[OF this] show ?thesis by auto
  qed
qed

lemma session_commit_trace:
  assumes "session_commit s = (r, s')" and "new_products s = []"
  shows "\<exists>t. trace s' = trace s @ t"
proof -
  obtain r1 s1 where fi: "flush_inventories (s\<lparr> new_products := [] \<rparr>) (new_inventories s) = (r1, s1)"
    by (cases "flush_inventories (s\<lparr> new_products := [] \<rparr>) (new_inventories s)") auto
  from flush_inventories_trace[OF fi] obtain t where t: "trace s1 = trace s @ t" by auto
  from assms fi have "s' = s1 \<or> s' = s1\<lparr> database := working s1, txn := None,
                                          trace := trace s1 @ [Commit] \<rparr>"
    by (auto simp: session_commit_def session_flush_def split: option.splits)
  with t show ?thesis by auto
qed

lemma transactional_write_cases:
  assumes np: "new_products s = []" and ni: "new_inventories s = []"
    and tw: "transactional_write s name sku price ws = (resp, s')"
  shows "((snd resp = 400 \<or> snd resp = 500) \<and> rolled_back s s')
       \<or> (\<exists>pid db1 rows.
             resp = (Created pid, 201) \<and>
             insert_product (working s) (name, sku, price) = Inr (db1, pid) \<and>
             txn s' = None \<and> new_products s' = [] \<and> new_inventories s' = [] \<and>
             last (trace s') = Commit \<and>
             products (database s') = products db1 \<and>
             inventories (database s') = inventories db1 @ rows \<and>
             list_all2 stored_as
               (map (\<lambda>wq. (pid, entry_field wq ''warehouse_id'', entry_field wq ''quantity'')) ws)
               rows \<and>
             warehouses (database s') = warehouses db1 \<and>
             inventory_changes (database s') = inventory_changes db1 \<and>
             suppliers (database s') = suppliers db1)"
proof -
  obtain r s1 where fl: "session_flush (session_add s (name, sku, price)) = (r, s1)"
    by (cases "session_flush (session_add s (name, sku, price))") auto
  note f = session_flush_add[OF np ni fl]
  show ?thesis
  proof (cases "insert_product (working s) (name, sku, price)")
    case (Inl e)
    with f(4) have r: "r = Inl e" by simp
    with tw fl have h: "handle_db_error e s1 = (resp, s')"
      by (simp add: transactional_write_def)
    from handle_db_error_rollback[OF h] f(1,2)
    have "(snd resp = 400 \<or> snd resp = 500) \<and> rolled_back s s'"
      by (simp add: rolled_back_def)
    then show ?thesis by blast
  next
    case (Inr a)
    then obtain db1 pid where ins: "insert_product (working s) (name, sku, price) = Inr (db1, pid)"
      by (cases a) auto
    with f(4) have r: "r = Inr [pid]" and s1: "txn s1 = Some db1" "new_products s1 = []"
      by simp_all
    let ?entries = "map (\<lambda>wq. (pid, entry_field wq ''warehouse_id'',
                                 entry_field wq ''quantity'')) ws"
    let ?s1' = "session_add_all s1 ?entries"
    obtain r2 s2 where cm: "session_commit ?s1' = (r2, s2)"
      by (cases "session_commit ?s1'") auto
    have s1': "database ?s1' = database s" "new_products ?s1' = []"
      "new_inventories ?s1' = ?entries" "working ?s1' = db1"
      "trace ?s1' = trace s @ [Insert_product]"
      using f(1,2,3) s1 by (simp_all add: session_add_all_def working_def)
    from session_commit_trace[OF cm s1'(2)] s1'(5)
    obtain t where t: "trace s2 = trace s @ Insert_product # t" by auto
    show ?thesis
    proof (cases r2)
      case (Some e)
      with tw fl r cm have h: "handle_db_error e s2 = (resp, s')"
        by (simp add: transactional_write_def Let_def)
      from Some cm have "session_commit ?s1' = (Some e, s2)" by simp
      from session_commit_failed[OF this] have d: "database s2 = database s"
        by (simp only: s1'(1))
      from handle_db_error_rollback[OF h] d t
      have "(snd resp = 400 \<or> snd resp = 500) \<and> rolled_back s s'"
        by (simp add: rolled_back_def)
      then show ?thesis by blast
    next
      case None
      with tw fl r cm have res: "resp = (Created pid, 201)" "s' = s2"
        by (simp_all add: transactional_write_def Let_def)
      from cm None have cm': "session_commit ?s1' = (None, s2)" by simp
      from session_commit_effect[OF cm' s1'(2)] obtain rows where
        e: "txn s2 = None" "new_products s2 = []" "new_inventories s2 = []"
        "trace s2 = trace ?s1' @ replicate (length (new_inventories ?s1')) Insert_inventory @ [Commit]"
        "inventories (database s2) = inventories (working ?s1') @ rows"
        "list_all2 stored_as (new_inventories ?s1') rows"
        "products (database s2) = products (working ?s1')"
        "warehouses (database s2) = warehouses (working ?s1')"
        "inventory_changes (database s2) = inventory_changes (working ?s1')"
        "suppliers (database s2) = suppliers (working ?s1')"
        by auto
      from e(4) have "last (trace s2) = Commit" by simp
      have "\<exists>pid db1 rows.
             resp = (Created pid, 201) \<and>
             insert_product (working s) (name, sku, price) = Inr (db1, pid) \<and>
             txn s' = None \<and> new_products s' = [] \<and> new_inventories s' = [] \<and>
             last (trace s') = Commit \<and>
             products (database s') = products db1 \<and>
             inventories (database s') = inventories db1 @ rows \<and>
             list_all2 stored_as
               (map (\<lambda>wq. (pid, entry_field wq ''warehouse_id'', entry_field wq ''quantity'')) ws)
               rows \<and>
             warehouses (database s') = warehouses db1 \<and>
             inventory_changes (database s') = inventory_changes db1 \<and>
             suppliers (database s') = suppliers db1"
        apply (rule exI[of _ pid], rule exI[of _ db1], rule exI[of _ rows])
        using res ins e(1-3,5-10) \<open>last (trace s2) = Commit\<close>
        unfolding s1'(3,4) by simp
      then show ?thesis by (rule disjI2)
    qed
  qed
qed

section \<open>Properties of the create-product endpoint\<close>

lemma query_product_by_sku_session:
  "snd (query_product_by_sku s v) = s\<lparr> trace := trace s @ [Select_product_by_sku v] \<rparr>"
  by (cases v) (simp_all add: query_product_by_sku_def Let_def)

lemma find_Some_ex: "(\<exists>p. find P xs = Some p) \<longleftrightarrow> (\<exists>x\<in>set xs. P x)"
  by (induction xs) auto

lemma query_product_by_sku_found:
  "(\<exists>p. fst (query_product_by_sku s v) = Inr (Some p)) \<longleftrightarrow>
   (\<exists>k. v = JStr k \<and> k \<in> set (map prod_sku (products (working s))))"
  by (cases v) (auto simp: query_product_by_sku_def Let_def find_Some_ex)

lemma working_new_session: "working (new_session db) = db"
  by (simp add: working_def new_session_def)

text \<open>The stages of the view, one equation each.\<close>

lemma create_product_unhandled_body:
  "first_missing (request_data rj) required_fields = Inl e \<Longrightarrow>
   create_product_among D others db rj = (unhandled, new_session db)"
  by (simp add: create_product_among_def Let_def)

lemma create_product_missing_field:
  "first_missing (request_data rj) required_fields = Inr (Some f) \<Longrightarrow>
   create_product_among D others db rj =
     ((Error (''Missing required field: '' @ f), 400), new_session db)"
  by (simp add: create_product_among_def Let_def)

lemma create_product_bad_price:
  "first_missing (request_data rj) required_fields = Inr None \<Longrightarrow>
   parse_price D (request_data rj) = Inl r \<Longrightarrow>
   create_product_among D others db rj = (r, new_session db)"
  by (simp add: create_product_among_def Let_def)

lemma create_product_after_validation:
  assumes "first_missing (request_data rj) required_fields = Inr None"
    and "parse_price D (request_data rj) = Inr price"
  shows "create_product_among D others db rj =
     (let data = request_data rj;
          s1 = (new_session db)\<lparr> trace := [Select_product_by_sku (entry_field data ''sku'')] \<rparr>
      in case fst (query_product_by_sku (new_session db) (entry_field data ''sku'')) of
           Inl e \<Rightarrow> (unhandled, s1)
         | Inr (Some existing) \<Rightarrow> ((Error ''SKU must be unique.'', 409), s1)
         | Inr None \<Rightarrow>
             (case validate_warehouse_quantities (entry_field data ''warehouse_quantities'') of
                Inl r \<Rightarrow> (r, s1)
              | Inr ws \<Rightarrow>
                  transactional_write (s1\<lparr> database := others db \<rparr>)
                    (entry_field data ''name'') (entry_field data ''sku'') price ws))"
proof -
  let ?v = "entry_field (request_data rj) ''sku''"
  obtain q s1 where q: "query_product_by_sku (new_session db) ?v = (q, s1)"
    by (cases "query_product_by_sku (new_session db) ?v") auto
  from query_product_by_sku_session[of "new_session db" ?v] q
  have s1: "s1 = (new_session db)\<lparr> trace := [Select_product_by_sku ?v] \<rparr>"
    by (simp add: new_session_def)
  have d: "database s1 = db" unfolding s1 by (simp add: new_session_def)
  show ?thesis
    using assms q d
    by (simp add: create_product_among_def Let_def s1[symmetric]
        split: sum.splits option.splits)
qed

lemma parse_price_status:
  "parse_price D data = Inl r \<Longrightarrow> snd r = 400 \<or> snd r = 500"
  by (auto simp: parse_price_def unhandled_def split: sum.splits py_error.splits option.splits)

lemma validate_warehouse_quantities_status:
  "validate_warehouse_quantities wq = Inl r \<Longrightarrow> snd r = 400"
  by (auto simp: validate_warehouse_quantities_def split: json.splits if_splits)


lemma prechecked_fields:
  "database (prechecked db data) = db" "txn (prechecked db data) = None"
  "new_products (prechecked db data) = []" "new_inventories (prechecked db data) = []"
  "trace (prechecked db data) = [Select_product_by_sku (entry_field data ''sku'')]"
  by (simp_all add: prechecked_def new_session_def)

lemma new_session_fields:
  "database (new_session db) = db" "txn (new_session db) = None"
  "new_products (new_session db) = []" "new_inventories (new_session db) = []"
  "trace (new_session db) = []"
  by (simp_all add: new_session_def)

lemma create_product_among_outcome:
  assumes run: "create_product_among D others db rj = (resp, s')"
  shows "(s' = new_session db \<and> (snd resp = 400 \<or> snd resp = 500) \<and>
          (first_missing (request_data rj) required_fields \<noteq> Inr None \<or>
           isl (parse_price D (request_data rj))))
       \<or> (first_missing (request_data rj) required_fields = Inr None \<and>
          \<not> isl (parse_price D (request_data rj)) \<and>
          s' = prechecked db (request_data rj) \<and>
          ((resp = unhandled \<and>
            isl (fst (query_product_by_sku (new_session db)
                        (entry_field (request_data rj) ''sku''))))
           \<or> (resp = (Error ''SKU must be unique.'', 409) \<and>
               (\<exists>p. fst (query_product_by_sku (new_session db)
                        (entry_field (request_data rj) ''sku'')) = Inr (Some p)))
           \<or> (fst (query_product_by_sku (new_session db)
                        (entry_field (request_data rj) ''sku'')) = Inr None \<and>
               validate_warehouse_quantities
                 (entry_field (request_data rj) ''warehouse_quantities'') = Inl resp)))
       \<or> (first_missing (request_data rj) required_fields = Inr None \<and>
          fst (query_product_by_sku (new_session db)
                 (entry_field (request_data rj) ''sku'')) = Inr None \<and>
          (\<exists>price ws.
             parse_price D (request_data rj) = Inr price \<and>
             validate_warehouse_quantities
               (entry_field (request_data rj) ''warehouse_quantities'') = Inr ws \<and>
             transactional_write ((prechecked db (request_data rj))\<lparr> database := others db \<rparr>)
               (entry_field (request_data rj) ''name'') (entry_field (request_data rj) ''sku'')
               price ws = (resp, s')))"
proof -
  let ?data = "request_data rj"
  let ?q = "fst (query_product_by_sku (new_session db) (entry_field ?data ''sku''))"
  let ?v = "validate_warehouse_quantities (entry_field ?data ''warehouse_quantities'')"
  show ?thesis
  proof (cases "first_missing ?data required_fields")
    case (Inl e)
    from run create_product_unhandled_body[OF Inl, of D others db]
    have "resp = unhandled" "s' = new_session db" by simp_all
    with Inl show ?thesis by (simp add: unhandled_def)
  next
    case (Inr m)
    show ?thesis
    proof (cases m)
      case (Some f)
      with Inr have fm: "first_missing ?data required_fields = Inr (Some f)" by simp
      from run create_product_missing_field[OF fm, of D others db]
      have "snd resp = 400" "s' = new_session db" by auto
      with fm show ?thesis by simp
    next
      case None
      with Inr have fm: "first_missing ?data required_fields = Inr None" by simp
      show ?thesis
      proof (cases "parse_price D ?data")
        case (Inl r)
        from run create_product_bad_price[OF fm Inl, of others db]
        have "resp = r" "s' = new_session db" by simp_all
        with Inl parse_price_status[OF Inl] show ?thesis by simp
      next
        case (Inr price)
        note eq = create_product_after_validation[OF fm Inr, of others db,
            unfolded Let_def, folded prechecked_def]
        show ?thesis
        proof (cases ?q)
          case (Inl e)
          with run eq have "resp = unhandled" "s' = prechecked db ?data" by simp_all
          with fm Inr Inl show ?thesis by simp
        next
          case qr: (Inr found)
          show ?thesis
          proof (cases found)
            case (Some p)
            with run eq qr have "resp = (Error ''SKU must be unique.'', 409)"
              "s' = prechecked db ?data" by simp_all
            with fm Inr qr Some show ?thesis by simp
          next
            case None
            with qr have q: "?q = Inr None" by simp
            show ?thesis
            proof (cases ?v)
              case (Inl r)
              with run eq q have "resp = r" "s' = prechecked db ?data" by simp_all
              with fm Inr q Inl show ?thesis by simp
            next
              case vr: (Inr ws)
              with run eq q have
                "transactional_write ((prechecked db ?data)\<lparr> database := others db \<rparr>)
                   (entry_field ?data ''name'') (entry_field ?data ''sku'') price ws = (resp, s')"
                by simp
              with fm Inr q vr show ?thesis by simp
            qed
          qed
        qed
      qed
    qed
  qed
qed


lemmas cp_eval_defs =
  create_product_among_def create_product_def request_data_def required_fields_def
  parse_price_def validate_warehouse_quantities_def wq_entry_rejected_def entry_field_def
  query_product_by_sku_def transactional_write_def handle_db_error_def
  session_add_def session_add_all_def session_flush_def session_commit_def
  session_rollback_def new_session_def working_def insert_product_def insert_inventory_def
  fresh_id_def unhandled_def int_prices_def empty_store_def bolt_request_def wq_entry_def
  bolt_row_def Let_def

lemma prechecked_write_fields:
  "database ((prechecked db data)\<lparr> database := d \<rparr>) = d"
  "new_products ((prechecked db data)\<lparr> database := d \<rparr>) = []"
  "new_inventories ((prechecked db data)\<lparr> database := d \<rparr>) = []"
  "working ((prechecked db data)\<lparr> database := d \<rparr>) = d"
  by (simp_all add: prechecked_def new_session_def working_def)

lemma flush_inventories_result:
  "fst (flush_inventories s nis) =
   (case insert_all (working s) nis of Inl e \<Rightarrow> Some e | Inr d \<Rightarrow> None)"
proof (induction nis arbitrary: s)
  case Nil
  show ?case by simp
next
  case (Cons ni nis)
  show ?case
  proof (cases "insert_inventory (working s) ni")
    case (Inl e)
    then show ?thesis by (simp add: Let_def)
  next
    case (Inr db')
    have "working (s\<lparr> trace := trace s @ [Insert_inventory], txn := Some db',
                        new_inventories := nis \<rparr>) = db'"
      by (simp add: working_def)
    with Inr Cons.IH[of "s\<lparr> trace := trace s @ [Insert_inventory], txn := Some db',
                             new_inventories := nis \<rparr>"]
    show ?thesis by (simp add: Let_def)
  qed
qed

lemma transactional_write_refused_any:
  assumes np: "new_products s = []" and ni: "new_inventories s = []"
    and refused: "refused_insert (working s) (name, sku, price) ws = Some e"
  shows "\<exists>s2. transactional_write s name sku price ws = handle_db_error e s2"
proof -
  obtain r s1 where fl: "session_flush (session_add s (name, sku, price)) = (r, s1)"
    by (cases "session_flush (session_add s (name, sku, price))") auto
  note f = session_flush_add[OF np ni fl]
  show ?thesis
  proof (cases "insert_product (working s) (name, sku, price)")
    case (Inl e')
    with refused have "e' = e" by (simp add: refused_insert_def)
    with Inl f(4) have "r = Inl e" by simp
    with fl have "transactional_write s name sku price ws = handle_db_error e s1"
      by (simp add: transactional_write_def)
    then show ?thesis by blast
  next
    case (Inr a)
    then obtain db1 pid where ins: "insert_product (working s) (name, sku, price) = Inr (db1, pid)"
      by (cases a) auto
    with f(4) have r: "r = Inr [pid]" and s1: "txn s1 = Some db1" "new_products s1 = []"
      by simp_all
    let ?entries = "map (\<lambda>wq. (pid, entry_field wq ''warehouse_id'',
                                 entry_field wq ''quantity'')) ws"
    let ?s1' = "session_add_all s1 ?entries"
    let ?s1'' = "?s1'\<lparr> new_products := [] \<rparr>"
    from refused ins have all: "insert_all db1 ?entries = Inl e"
      by (simp add: refused_insert_def split: sum.splits)
    have w: "working ?s1'' = db1" "new_inventories ?s1'' = ?entries" "new_products ?s1' = []"
      using s1 f(3) by (simp_all add: session_add_all_def working_def)
    obtain r2 s2 where fi: "flush_inventories ?s1'' ?entries = (r2, s2)"
      by (cases "flush_inventories ?s1'' ?entries") auto
    from flush_inventories_result[of ?s1'' ?entries] fi all w(1) have r2: "r2 = Some e" by simp
    have "session_commit ?s1' = (Some e, s2)"
      using fi r2 w(2,3) by (simp add: session_commit_def session_flush_def)
    with fl r have "transactional_write s name sku price ws = handle_db_error e s2"
      by (simp add: transactional_write_def Let_def)
    then show ?thesis by blast
  qed
qed

lemma handle_db_error_response:
  "fst (handle_db_error e s) = fst (handle_db_error e s')"
  by (simp add: handle_db_error_def split: db_error.splits)

text \<open>
  C1: for every create-product request that reaches the transactional write, if the
  store refuses one of its INSERTs (the product's, or any inventory row's, for
  example for a warehouse_id that does not exist), the answer is the handler's
  error response for that refusal (400 or 500, never 201), the rollback is the last
  statement sent, and the committed database holds no row of the request: it is the
  database the write started from, with no transaction open and nothing pending.
  More generally, whenever the answer is not 201, the committed database holds no
  row of the request.
\<close>

theorem create_product_atomic:
  assumes run: "create_product_among D others db rj = (resp, s')"
  shows "(first_missing (request_data rj) required_fields = Inr None \<and>
          parse_price D (request_data rj) = Inr price \<and>
          fst (query_product_by_sku (new_session db)
                 (entry_field (request_data rj) ''sku'')) = Inr None \<and>
          validate_warehouse_quantities
            (entry_field (request_data rj) ''warehouse_quantities'') = Inr ws \<and>
          refused_insert (others db)
            (entry_field (request_data rj) ''name'', entry_field (request_data rj) ''sku'', price)
            ws = Some e
          \<longrightarrow> resp = fst (handle_db_error e s') \<and> (snd resp = 400 \<or> snd resp = 500) \<and>
              database s' = others db \<and> txn s' = None \<and> new_products s' = [] \<and>
              new_inventories s' = [] \<and> last (trace s') = Rollback)
       \<and> (snd resp \<noteq> 201
          \<longrightarrow> (database s' = db \<or> database s' = others db) \<and> txn s' = None \<and>
              new_products s' = [] \<and> new_inventories s' = [] \<and>
              (Insert_product \<in> set (trace s') \<longrightarrow> last (trace s') = Rollback))"
  (is "?A \<and> ?B")
proof -
  let ?data = "request_data rj"
  let ?s = "(prechecked db ?data)\<lparr> database := others db \<rparr>"
  let ?q = "fst (query_product_by_sku (new_session db) (entry_field ?data ''sku''))"
  let ?v = "validate_warehouse_quantities (entry_field ?data ''warehouse_quantities'')"
  from create_product_among_outcome[OF run]
  consider (early) "s' = new_session db"
      "first_missing ?data required_fields \<noteq> Inr None \<or> isl (parse_price D ?data)"
    | (pre) "s' = prechecked db ?data"
      "(resp = unhandled \<and> isl ?q) \<or>
       (resp = (Error ''SKU must be unique.'', 409) \<and> (\<exists>p. ?q = Inr (Some p))) \<or>
       (?q = Inr None \<and> ?v = Inl resp)"
    | (writing) price' ws' where
        "parse_price D ?data = Inr price'" "?v = Inr ws'"
        "transactional_write ?s (entry_field ?data ''name'') (entry_field ?data ''sku'')
           price' ws' = (resp, s')"
    by blast
  then show ?thesis
  proof cases
    case early
    from early(2) have "\<not> (first_missing ?data required_fields = Inr None \<and>
                          parse_price D ?data = Inr price)" by auto
    then have a: ?A by blast
    from early(1) have b: ?B by (simp add: new_session_fields)
    from a b show ?thesis by (rule conjI)
  next
    case pre
    from pre(2) have "\<not> (?q = Inr None \<and> ?v = Inr ws)" by auto
    then have a: ?A by blast
    from pre(1) have b: ?B by (simp add: prechecked_fields)
    from a b show ?thesis by (rule conjI)
  next
    case writing
    note c = transactional_write_cases[OF prechecked_write_fields(2,3) writing(3)]
    have second: "(database s' = db \<or> database s' = others db) \<and> txn s' = None \<and>
              new_products s' = [] \<and> new_inventories s' = [] \<and>
              (Insert_product \<in> set (trace s') \<longrightarrow> last (trace s') = Rollback)"
      if "snd resp \<noteq> 201"
    proof -
      from c that have "rolled_back ?s s'" by auto
      then show ?thesis by (simp add: rolled_back_def prechecked_write_fields)
    qed
    have first: "resp = fst (handle_db_error e s') \<and> (snd resp = 400 \<or> snd resp = 500) \<and>
              database s' = others db \<and> txn s' = None \<and> new_products s' = [] \<and>
              new_inventories s' = [] \<and> last (trace s') = Rollback"
      if pp: "parse_price D ?data = Inr price" and v: "?v = Inr ws"
        and refused: "refused_insert (others db)
            (entry_field ?data ''name'', entry_field ?data ''sku'', price) ws = Some e"
    proof -
      from pp writing(1) have pe: "price' = price" by simp
      from v writing(2) have we: "ws' = ws" by simp
      from refused have refused': "refused_insert (working ?s)
            (entry_field ?data ''name'', entry_field ?data ''sku'', price) ws = Some e"
        by (simp only: prechecked_write_fields(4))
      from transactional_write_refused_any[OF prechecked_write_fields(2,3) refused']
      obtain s2 where "transactional_write ?s (entry_field ?data ''name'')
          (entry_field ?data ''sku'') price ws = handle_db_error e s2" by blast
      with writing(3) have h: "handle_db_error e s2 = (resp, s')" unfolding pe we by simp
      then have "resp = fst (handle_db_error e s2)" by simp
      then have r: "resp = fst (handle_db_error e s')"
        using handle_db_error_response[of e s2 s'] by simp
      from handle_db_error_rollback(6)[OF h] have st: "snd resp = 400 \<or> snd resp = 500" .
      then have "snd resp \<noteq> 201" by auto
      with c have "rolled_back ?s s'" by auto
      with r st show ?thesis by (simp add: rolled_back_def prechecked_write_fields)
    qed
    from first have a: ?A by blast
    from second have b: ?B by blast
    from a b show ?thesis by (rule conjI)
  qed
qed

theorem create_product_atomic_witness:
  "refused_insert empty_store (JStr ''Bolt'', JStr ''B-7'', 10)
     [wq_entry (JInt 1) (JInt 5), wq_entry (JInt 99) (JInt 2)]
     = Some (IntegrityError ''FOREIGN KEY constraint failed'')
   \<and> create_product_among int_prices (\<lambda>d. d) empty_store
          (bolt_request (JList [wq_entry (JInt 1) (JInt 5), wq_entry (JInt 99) (JInt 2)]))
     = ((Error ''Database error, possibly invalid warehouse_id or duplicate entry.'', 400),
        \<lparr> database = empty_store, txn = None, new_products = [], new_inventories = [],
          trace = [Select_product_by_sku (JStr ''B-7''), Insert_product, Insert_inventory,
                   Insert_inventory, Rollback] \<rparr>)"
proof -
  let ?ws = "[wq_entry (JInt 1) (JInt 5), wq_entry (JInt 99) (JInt 2)]"
  let ?rj = "bolt_request (JList ?ws)"
  let ?run = "create_product_among int_prices (\<lambda>d. d) empty_store ?rj"
  let ?e = "IntegrityError ''FOREIGN KEY constraint failed''"
  have data: "request_data ?rj = ?rj" by (simp add: request_data_def bolt_request_def)
  have pre: "first_missing (request_data ?rj) required_fields = Inr None"
    "parse_price int_prices (request_data ?rj) = Inr 10"
    "entry_field (request_data ?rj) ''sku'' = JStr ''B-7''"
    "entry_field (request_data ?rj) ''name'' = JStr ''Bolt''"
    "validate_warehouse_quantities (entry_field (request_data ?rj) ''warehouse_quantities'')
       = Inr ?ws"
    unfolding data
    by (simp_all add: bolt_request_def required_fields_def parse_price_def int_prices_def
        entry_field_def validate_warehouse_quantities_def wq_entry_rejected_def wq_entry_def)
  have q: "fst (query_product_by_sku (new_session empty_store) (JStr ''B-7'')) = Inr None"
    by (simp add: query_product_by_sku_def new_session_def working_def empty_store_def Let_def)
  have refused: "refused_insert empty_store (JStr ''Bolt'', JStr ''B-7'', 10) ?ws = Some ?e"
    by (simp add: refused_insert_def insert_product_def insert_inventory_def empty_store_def
        fresh_id_def entry_field_def wq_entry_def Let_def)
  have run: "?run = (fst ?run, snd ?run)" by simp
  from create_product_atomic[OF run, of 10 ?ws ?e] pre q refused
  have a: "fst ?run = fst (handle_db_error ?e (snd ?run))" "database (snd ?run) = empty_store"
    "txn (snd ?run) = None" "new_products (snd ?run) = []" "new_inventories (snd ?run) = []"
    by simp_all
  have tr: "trace (snd ?run) = [Select_product_by_sku (JStr ''B-7''), Insert_product,
        Insert_inventory, Insert_inventory, Rollback]"
    by (simp add: cp_eval_defs)
  from a(1) have r: "fst ?run
      = (Error ''Database error, possibly invalid warehouse_id or duplicate entry.'', 400)"
    by (simp add: handle_db_error_def)
  have "snd ?run = \<lparr> database = empty_store, txn = None, new_products = [],
          new_inventories = [],
          trace = [Select_product_by_sku (JStr ''B-7''), Insert_product, Insert_inventory,
                   Insert_inventory, Rollback] \<rparr>"
    using a(2-5) tr by (cases "snd ?run") simp
  with r refused show ?thesis by (simp add: prod_eq_iff)
qed

lemma request_data_valid:
  "first_missing (request_data rj) required_fields = Inr None \<Longrightarrow> request_data rj = rj"
  by (simp add: request_data_def required_fields_def split: if_splits)

lemma validate_warehouse_quantities_Inr:
  "validate_warehouse_quantities wq = Inr ws \<Longrightarrow>
   wq = JList ws \<and> ws \<noteq> [] \<and> \<not> list_ex wq_entry_rejected ws"
  by (auto simp: validate_warehouse_quantities_def split: json.splits if_splits)

lemma entry_field_JList:
  "entry_field data k = JList ws \<Longrightarrow> py_getitem data k = Inr (JList ws)"
  by (auto simp: entry_field_def split: sum.splits)

lemma stored_as_row_of:
  "stored_as (pid, entry_field w ''warehouse_id'', entry_field w ''quantity'') row
   = inventory_row_of pid w row"
  by (simp add: stored_as_def inventory_row_of_def)

text \<open>
  C7: when create-product answers 201 for a request whose warehouse_quantities list
  has k entries, it has appended one Product row, with the id it returns, and exactly
  k Inventory rows, the i-th referencing that product id and carrying the
  warehouse_id and the quantity of the i-th entry.
\<close>

theorem create_product_fan_out:
  assumes run: "create_product_among D others db rj = (resp, s')"
    and ok: "snd resp = 201"
  shows "\<exists>pid ws rows p.
           resp = (Created pid, 201) \<and>
           py_getitem rj ''warehouse_quantities'' = Inr (JList ws) \<and>
           products (database s') = products (others db) @ [p] \<and> prod_id p = pid \<and>
           inventories (database s') = inventories (others db) @ rows \<and>
           length rows = length ws \<and>
           (\<forall>k<length ws. inventory_row_of pid (ws ! k) (rows ! k))"
proof -
  let ?data = "request_data rj"
  let ?s = "(prechecked db ?data)\<lparr> database := others db \<rparr>"
  let ?wq = "entry_field ?data ''warehouse_quantities''"
  from create_product_among_outcome[OF run]
  consider (early) "snd resp = 400 \<or> snd resp = 500"
    | (pre) "resp = unhandled \<or> resp = (Error ''SKU must be unique.'', 409) \<or>
             validate_warehouse_quantities ?wq = Inl resp"
    | (writing) price ws where
        "first_missing ?data required_fields = Inr None"
        "validate_warehouse_quantities ?wq = Inr ws"
        "transactional_write ?s (entry_field ?data ''name'') (entry_field ?data ''sku'')
           price ws = (resp, s')"
    by blast
  then show ?thesis
  proof cases
    case early
    with ok show ?thesis by simp
  next
    case pre
    then have "snd resp = 500 \<or> snd resp = 409 \<or> snd resp = 400"
      using validate_warehouse_quantities_status[of ?wq resp]
      by (auto simp: unhandled_def)
    with ok show ?thesis by simp
  next
    case writing
    from request_data_valid[OF writing(1)] have data: "?data = rj" .
    from validate_warehouse_quantities_Inr[OF writing(2)]
    have "entry_field ?data ''warehouse_quantities'' = JList ws" by simp
    from entry_field_JList[OF this]
    have wq: "py_getitem rj ''warehouse_quantities'' = Inr (JList ws)"
      unfolding data .
    note c = transactional_write_cases[OF prechecked_write_fields(2,3) writing(3),
        unfolded prechecked_write_fields(4)]
    from ok have no: "\<not> (snd resp = 400 \<or> snd resp = 500)" by simp
    from c no obtain pid db1 rows where big:
      "resp = (Created pid, 201) \<and>
       insert_product (others db)
         (entry_field ?data ''name'', entry_field ?data ''sku'', price) = Inr (db1, pid) \<and>
       txn s' = None \<and> new_products s' = [] \<and> new_inventories s' = [] \<and>
       last (trace s') = Commit \<and>
       products (database s') = products db1 \<and>
       inventories (database s') = inventories db1 @ rows \<and>
       list_all2 stored_as
         (map (\<lambda>wq. (pid, entry_field wq ''warehouse_id'', entry_field wq ''quantity'')) ws)
         rows \<and>
       warehouses (database s') = warehouses db1 \<and>
       inventory_changes (database s') = inventory_changes db1 \<and>
       suppliers (database s') = suppliers db1"
      by blast
    from big have r: "resp = (Created pid, 201)" by (rule conjunct1)
    from big have ins: "insert_product (others db)
         (entry_field ?data ''name'', entry_field ?data ''sku'', price) = Inr (db1, pid)"
      by (elim conjE)
    from big have pr: "products (database s') = products db1" by (elim conjE)
    from big have inv: "inventories (database s') = inventories db1 @ rows" by (elim conjE)
    from big have st: "list_all2 stored_as
         (map (\<lambda>wq. (pid, entry_field wq ''warehouse_id'', entry_field wq ''quantity'')) ws)
         rows" by (elim conjE)
    from insert_product_effect(1,2)[OF ins] obtain p where
      p: "products db1 = products (others db) @ [p]" "prod_id p = pid"
      and i1: "inventories db1 = inventories (others db)"
      by blast
    from st have l2: "list_all2 (inventory_row_of pid) ws rows"
      by (simp add: list_all2_map1 stored_as_row_of)
    then have len: "length rows = length ws"
      and nth: "\<forall>k<length ws. inventory_row_of pid (ws ! k) (rows ! k)"
      by (simp_all add: list_all2_conv_all_nth)
    show ?thesis
      apply (rule exI[of _ pid], rule exI[of _ ws], rule exI[of _ rows], rule exI[of _ p])
      using r wq pr inv p i1 len nth by simp
  qed
qed


theorem create_product_fan_out_witness:
  "fst (create_product_among int_prices (\<lambda>d. d) empty_store
          (bolt_request (JList [wq_entry (JInt 1) (JInt 5), wq_entry (JInt 2) (JInt 0)])))
     = (Created 1, 201)
   \<and> inventories (database (snd (create_product_among int_prices (\<lambda>d. d) empty_store
          (bolt_request (JList [wq_entry (JInt 1) (JInt 5), wq_entry (JInt 2) (JInt 0)])))))
     = [\<lparr> inv_id = 1, product_id = 1, warehouse_id = 1, quantity = Some 5 \<rparr>,
        \<lparr> inv_id = 2, product_id = 1, warehouse_id = 2, quantity = Some 0 \<rparr>]
   \<and> (\<exists>rows. inventories (database (snd (create_product_among int_prices (\<lambda>d. d) empty_store
          (bolt_request (JList [wq_entry (JInt 1) (JInt 5), wq_entry (JInt 2) (JInt 0)])))))
          = inventories empty_store @ rows \<and> length rows = 2)"
proof -
  let ?ws = "[wq_entry (JInt 1) (JInt 5), wq_entry (JInt 2) (JInt 0)]"
  let ?rj = "bolt_request (JList ?ws)"
  let ?run = "create_product_among int_prices (\<lambda>d. d) empty_store ?rj"
  have ev: "fst ?run = (Created 1, 201)"
    "inventories (database (snd ?run))
     = [\<lparr> inv_id = 1, product_id = 1, warehouse_id = 1, quantity = Some 5 \<rparr>,
        \<lparr> inv_id = 2, product_id = 1, warehouse_id = 2, quantity = Some 0 \<rparr>]"
    by (simp_all add: cp_eval_defs)
  have wq: "py_getitem ?rj ''warehouse_quantities'' = Inr (JList ?ws)"
    by (simp add: bolt_request_def)
  have run: "?run = (fst ?run, snd ?run)" by simp
  have ok: "snd (fst ?run) = 201" by (simp only: ev(1) snd_conv)
  from create_product_fan_out[OF run ok] obtain ws rows where
    w: "py_getitem ?rj ''warehouse_quantities'' = Inr (JList ws)" and
    i: "inventories (database (snd ?run)) = inventories (empty_store) @ rows" and
    l: "length rows = length ws"
    by blast
  from w wq have "ws = ?ws" by simp
  with l have "length rows = 2" by simp
  with i have "\<exists>rows. inventories (database (snd ?run)) = inventories empty_store @ rows \<and>
          length rows = 2" by blast
  with ev show ?thesis by (intro conjI)
qed

text \<open>
  C8 (as stated): all structural validation, the warehouse_quantities entries
  included, completes before any store access, and a structurally invalid request is
  rejected without the store being read. A request whose only flaw is an empty
  warehouse_quantities list is rejected with 400 after the SKU pre-check has been
  sent to the store; and when the SKU is already taken, the same invalid request is
  answered 409, not 400.
\<close>

theorem late_validation_counterexample:
  "validate_warehouse_quantities (JList [])
     = Inl (Error ''warehouse_quantities must be a non-empty list.'', 400)
   \<and> fst (create_product int_prices empty_store (bolt_request (JList [])))
     = (Error ''warehouse_quantities must be a non-empty list.'', 400)
   \<and> trace (snd (create_product int_prices empty_store (bolt_request (JList []))))
     = [Select_product_by_sku (JStr ''B-7'')]
   \<and> fst (create_product int_prices (empty_store\<lparr> products := [bolt_row] \<rparr>)
            (bolt_request (JList [])))
     = (Error ''SKU must be unique.'', 409)"
  by (simp add: cp_eval_defs)

text \<open>
  C8 (amended): a request that fails the required-field or the price check is
  rejected (400, or 500 for a body that is no container) with no store access at
  all. The check of warehouse_quantities comes after the SKU pre-check: a request
  that passes the field and price checks and has invalid warehouse_quantities is
  answered only after that one SELECT has been sent to the store, and before any
  write. Its answer is 409 when the pre-check finds the SKU, the 400 of the
  warehouse_quantities check when the pre-check finds nothing, and 500 when the
  pre-check itself raises.
\<close>

theorem validation_order:
  assumes run: "create_product_among D others db rj = (resp, s')"
  shows "(first_missing (request_data rj) required_fields \<noteq> Inr None \<or>
          isl (parse_price D (request_data rj))
            \<longrightarrow> s' = new_session db \<and> trace s' = [] \<and> (snd resp = 400 \<or> snd resp = 500))
       \<and> (first_missing (request_data rj) required_fields = Inr None \<and>
          \<not> isl (parse_price D (request_data rj)) \<and>
          validate_warehouse_quantities
            (entry_field (request_data rj) ''warehouse_quantities'') = Inl r
            \<longrightarrow> s' = prechecked db (request_data rj) \<and>
                trace s' = [Select_product_by_sku (entry_field (request_data rj) ''sku'')] \<and>
                database s' = db \<and> txn s' = None \<and>
                resp = (case fst (query_product_by_sku (new_session db)
                                    (entry_field (request_data rj) ''sku'')) of
                          Inl e \<Rightarrow> unhandled
                        | Inr (Some existing) \<Rightarrow> (Error ''SKU must be unique.'', 409)
                        | Inr None \<Rightarrow> r) \<and>
                snd r = 400 \<and>
                ((\<exists>k. entry_field (request_data rj) ''sku'' = JStr k \<and>
                      k \<in> set (map prod_sku (products db)))
                  \<longrightarrow> resp = (Error ''SKU must be unique.'', 409)))"
  (is "?A \<and> ?B")
proof -
  let ?data = "request_data rj"
  let ?sku = "entry_field ?data ''sku''"
  let ?wq = "entry_field ?data ''warehouse_quantities''"
  let ?q = "fst (query_product_by_sku (new_session db) ?sku)"
  let ?v = "validate_warehouse_quantities ?wq"
  have found: "(\<exists>p. ?q = Inr (Some p)) \<longleftrightarrow>
               (\<exists>k. ?sku = JStr k \<and> k \<in> set (map prod_sku (products db)))"
    using query_product_by_sku_found[of "new_session db" ?sku]
    by (simp only: working_new_session)
  have conclude: ?B
    if s: "s' = prechecked db ?data"
      and req: "?v = Inl r \<Longrightarrow> resp = (case ?q of
                          Inl e \<Rightarrow> unhandled
                        | Inr (Some existing) \<Rightarrow> (Error ''SKU must be unique.'', 409)
                        | Inr None \<Rightarrow> r)"
      and dup: "?v = Inl r \<Longrightarrow> (\<exists>p. ?q = Inr (Some p)) \<Longrightarrow>
                resp = (Error ''SKU must be unique.'', 409)"
  proof (intro impI, elim conjE)
    assume v: "?v = Inl r"
    have f2: "trace s' = [Select_product_by_sku ?sku]" "database s' = db" "txn s' = None"
      unfolding s by (simp_all add: prechecked_fields)
    note f3 = req[OF v]
    note f4 = validate_warehouse_quantities_status[OF v]
    have f5: "(\<exists>k. ?sku = JStr k \<and> k \<in> set (map prod_sku (products db)))
                  \<longrightarrow> resp = (Error ''SKU must be unique.'', 409)"
      using dup[OF v] found by blast
    from s f2 f3 f4 f5
    show "s' = prechecked db ?data \<and>
                trace s' = [Select_product_by_sku ?sku] \<and>
                database s' = db \<and> txn s' = None \<and>
                resp = (case ?q of
                          Inl e \<Rightarrow> unhandled
                        | Inr (Some existing) \<Rightarrow> (Error ''SKU must be unique.'', 409)
                        | Inr None \<Rightarrow> r) \<and>
                snd r = 400 \<and>
                ((\<exists>k. ?sku = JStr k \<and> k \<in> set (map prod_sku (products db)))
                  \<longrightarrow> resp = (Error ''SKU must be unique.'', 409))"
      by (intro conjI)
  qed
  from create_product_among_outcome[OF run]
  consider (early) "s' = new_session db" "snd resp = 400 \<or> snd resp = 500"
      "first_missing ?data required_fields \<noteq> Inr None \<or> isl (parse_price D ?data)"
    | (query_failed) "first_missing ?data required_fields = Inr None"
        "\<not> isl (parse_price D ?data)" "s' = prechecked db ?data"
        "resp = unhandled" "isl ?q"
    | (duplicate) "first_missing ?data required_fields = Inr None"
        "\<not> isl (parse_price D ?data)" "s' = prechecked db ?data"
        "resp = (Error ''SKU must be unique.'', 409)" "\<exists>p. ?q = Inr (Some p)"
    | (bad_entries) "first_missing ?data required_fields = Inr None"
        "\<not> isl (parse_price D ?data)" "s' = prechecked db ?data"
        "?q = Inr None" "?v = Inl resp"
    | (writing) price ws where
        "first_missing ?data required_fields = Inr None"
        "parse_price D ?data = Inr price" "?v = Inr ws"
    by blast
  then show ?thesis
  proof cases
    case early
    from early(1,2) have a: ?A by (simp add: new_session_fields)
    from early(3) have b: ?B by blast
    from a b show ?thesis by (rule conjI)
  next
    case query_failed
    from query_failed(1,2) have a: ?A by blast
    from query_failed(5) obtain e where q: "?q = Inl e" by (cases ?q) auto
    have b: ?B
    proof (rule conclude[OF query_failed(3)])
      show "resp = (case ?q of Inl e \<Rightarrow> unhandled
                        | Inr (Some existing) \<Rightarrow> (Error ''SKU must be unique.'', 409)
                        | Inr None \<Rightarrow> r)"
        using q query_failed(4) by simp
      show "resp = (Error ''SKU must be unique.'', 409)" if "\<exists>p. ?q = Inr (Some p)"
        using that q by simp
    qed
    from a b show ?thesis by (rule conjI)
  next
    case duplicate
    from duplicate(1,2) have a: ?A by blast
    from duplicate(5) obtain p where q: "?q = Inr (Some p)" by blast
    have b: ?B
    proof (rule conclude[OF duplicate(3)])
      show "resp = (case ?q of Inl e \<Rightarrow> unhandled
                        | Inr (Some existing) \<Rightarrow> (Error ''SKU must be unique.'', 409)
                        | Inr None \<Rightarrow> r)"
        using q duplicate(4) by simp
      show "resp = (Error ''SKU must be unique.'', 409)" by (rule duplicate(4))
    qed
    from a b show ?thesis by (rule conjI)
  next
    case bad_entries
    from bad_entries(1,2) have a: ?A by blast
    have b: ?B
    proof (rule conclude[OF bad_entries(3)])
      show "resp = (case ?q of Inl e \<Rightarrow> unhandled
                        | Inr (Some existing) \<Rightarrow> (Error ''SKU must be unique.'', 409)
                        | Inr None \<Rightarrow> r)" if "?v = Inl r"
        using that bad_entries(4,5) by simp
      show "resp = (Error ''SKU must be unique.'', 409)" if "\<exists>p. ?q = Inr (Some p)"
        using that bad_entries(4) by simp
    qed
    from a b show ?thesis by (rule conjI)
  next
    case writing
    from writing(1,2) have a: ?A by simp
    from writing(3) have b: ?B by simp
    from a b show ?thesis by (rule conjI)
  qed
qed

theorem validation_order_witness:
  "create_product_among int_prices (\<lambda>d. d) empty_store (JObj [(''name'', JStr ''Bolt'')])
     = ((Error ''Missing required field: sku'', 400), new_session empty_store)
   \<and> create_product_among int_prices (\<lambda>d. d) empty_store (bolt_request (JList []))
     = ((Error ''warehouse_quantities must be a non-empty list.'', 400),
        prechecked empty_store (bolt_request (JList [])))
   \<and> create_product_among int_prices (\<lambda>d. d) (empty_store\<lparr> products := [bolt_row] \<rparr>)
        (bolt_request (JList []))
     = ((Error ''SKU must be unique.'', 409),
        prechecked (empty_store\<lparr> products := [bolt_row] \<rparr>) (bolt_request (JList [])))"
proof -
  let ?r1 = "create_product_among int_prices (\<lambda>d. d) empty_store (JObj [(''name'', JStr ''Bolt'')])"
  let ?rj = "bolt_request (JList [])"
  let ?r2 = "create_product_among int_prices (\<lambda>d. d) empty_store ?rj"
  let ?dbt = "empty_store\<lparr> products := [bolt_row] \<rparr>"
  let ?r3 = "create_product_among int_prices (\<lambda>d. d) ?dbt ?rj"
  let ?bad = "(Error ''warehouse_quantities must be a non-empty list.'', 400::nat)"
  have m: "first_missing (request_data (JObj [(''name'', JStr ''Bolt'')])) required_fields
           \<noteq> Inr None"
    by (simp add: request_data_def required_fields_def)
  have "?r1 = (fst ?r1, snd ?r1)" by simp
  from validation_order[OF this] m have "snd ?r1 = new_session empty_store" by blast
  moreover have "fst ?r1 = (Error ''Missing required field: sku'', 400)"
    by (simp add: cp_eval_defs)
  ultimately have a: "?r1 = ((Error ''Missing required field: sku'', 400), new_session empty_store)"
    by (simp add: prod_eq_iff)
  have data: "request_data ?rj = ?rj" by (simp add: request_data_def bolt_request_def)
  have pre: "first_missing (request_data ?rj) required_fields = Inr None"
    "\<not> isl (parse_price int_prices (request_data ?rj))"
    "validate_warehouse_quantities (entry_field (request_data ?rj) ''warehouse_quantities'')
       = Inl ?bad"
    "entry_field (request_data ?rj) ''sku'' = JStr ''B-7''"
    unfolding data
    by (simp_all add: bolt_request_def required_fields_def parse_price_def int_prices_def
        entry_field_def validate_warehouse_quantities_def)
  have q2: "fst (query_product_by_sku (new_session empty_store) (JStr ''B-7'')) = Inr None"
    by (simp add: query_product_by_sku_def new_session_def working_def empty_store_def Let_def)
  have "?r2 = (fst ?r2, snd ?r2)" by simp
  from validation_order[OF this, of ?bad] pre(1-3)
  have s2: "snd ?r2 = prechecked empty_store (request_data ?rj)"
    and f2: "fst ?r2 = (case fst (query_product_by_sku (new_session empty_store)
                            (entry_field (request_data ?rj) ''sku'')) of
                  Inl e \<Rightarrow> unhandled
                | Inr (Some existing) \<Rightarrow> (Error ''SKU must be unique.'', 409)
                | Inr None \<Rightarrow> ?bad)"
    by blast+
  from f2 have "fst ?r2 = ?bad" unfolding pre(4) q2 by simp
  with s2 have b: "?r2 = (?bad, prechecked empty_store ?rj)"
    by (simp add: prod_eq_iff data)
  have k: "\<exists>k. entry_field (request_data ?rj) ''sku'' = JStr k \<and>
             k \<in> set (map prod_sku (products ?dbt))"
    unfolding pre(4) by (simp add: bolt_row_def)
  have "?r3 = (fst ?r3, snd ?r3)" by simp
  from validation_order[OF this, of ?bad] pre(1-3) k
  have "snd ?r3 = prechecked ?dbt (request_data ?rj)"
    "fst ?r3 = (Error ''SKU must be unique.'', 409)"
    by blast+
  then have c: "?r3 = ((Error ''SKU must be unique.'', 409), prechecked ?dbt ?rj)"
    by (simp add: prod_eq_iff data)
  from a b c show ?thesis by (intro conjI)
qed

lemma find_None_sku:
  "k \<notin> set (map prod_sku (products db)) \<Longrightarrow> find (\<lambda>p. prod_sku p = k) (products db) = None"
  by (auto simp: find_None_iff)

lemma wq_entry_accepts_any_id:
  "\<not> wq_entry_rejected (wq_entry wid (JBool b))"
  by (simp add: wq_entry_rejected_def wq_entry_def)

text \<open>
  C9: the entry \<open>{warehouse_id: "not-an-id", quantity: true}\<close> passes the validation of
  lines 59-63 (only the presence of warehouse_id is checked, and a bool is an int),
  and a request carrying it, with a valid price and a SKU not yet taken, goes on to
  the store: the product INSERT and an inventory INSERT are sent before the rollback.
\<close>

theorem validation_accepts_untyped_entry:
  assumes price: "D (JInt 10) = Some price"
    and fresh: "''B-7'' \<notin> set (map prod_sku (products db))"
  shows "\<not> wq_entry_rejected (wq_entry (JStr ''not-an-id'') (JBool True))
       \<and> validate_warehouse_quantities (JList [wq_entry (JStr ''not-an-id'') (JBool True)])
           = Inr [wq_entry (JStr ''not-an-id'') (JBool True)]
       \<and> trace (snd (create_product D db
                  (bolt_request (JList [wq_entry (JStr ''not-an-id'') (JBool True)]))))
           = [Select_product_by_sku (JStr ''B-7''), Insert_product, Insert_inventory, Rollback]"
proof -
  let ?e = "wq_entry (JStr ''not-an-id'') (JBool True)"
  let ?rj = "bolt_request (JList [?e])"
  have a: "\<not> wq_entry_rejected ?e" by (rule wq_entry_accepts_any_id)
  then have b: "validate_warehouse_quantities (JList [?e]) = Inr [?e]"
    by (simp add: validate_warehouse_quantities_def)
  have data: "request_data ?rj = ?rj" by (simp add: request_data_def bolt_request_def)
  have fm: "first_missing (request_data ?rj) required_fields = Inr None"
    unfolding data by (simp add: bolt_request_def required_fields_def)
  have pp: "parse_price D (request_data ?rj) = Inr price"
    unfolding data using price by (simp add: parse_price_def bolt_request_def)
  have fields: "entry_field ?rj ''sku'' = JStr ''B-7''" "entry_field ?rj ''name'' = JStr ''Bolt''"
    "entry_field ?rj ''warehouse_quantities'' = JList [?e]"
    by (simp_all add: entry_field_def bolt_request_def)
  have q: "fst (query_product_by_sku (new_session db) (JStr ''B-7'')) = Inr None"
    using fresh by (simp add: query_product_by_sku_def Let_def working_new_session find_None_sku)
  let ?s = "(prechecked db ?rj)\<lparr> database := db \<rparr>"
  have run: "create_product D db ?rj
             = transactional_write ?s (JStr ''Bolt'') (JStr ''B-7'') price [?e]"
    unfolding create_product_def
      create_product_after_validation[OF fm pp, of "\<lambda>d. d" db, unfolded Let_def, folded prechecked_def]
    unfolding data fields by (simp add: q b)
  have ins: "\<exists>db1 pid. insert_product db (JStr ''Bolt'', JStr ''B-7'', price) = Inr (db1, pid)"
    using fresh by (simp add: insert_product_def Let_def)
  then obtain db1 pid where ins: "insert_product db (JStr ''Bolt'', JStr ''B-7'', price) = Inr (db1, pid)"
    by blast
  have "trace (snd (transactional_write ?s (JStr ''Bolt'') (JStr ''B-7'') price [?e]))
        = [Select_product_by_sku (JStr ''B-7''), Insert_product, Insert_inventory, Rollback]"
    using ins
    by (simp add: transactional_write_def session_add_def session_flush_def
        session_commit_def session_add_all_def prechecked_def new_session_def working_def
        Let_def entry_field_def wq_entry_def insert_inventory_def handle_db_error_def
        bolt_request_def
        session_rollback_def)
  with a b run show ?thesis by simp
qed

theorem validation_accepts_untyped_entry_witness:
  "int_prices (JInt 10) = Some 10
   \<and> ''B-7'' \<notin> set (map prod_sku (products empty_store))
   \<and> trace (snd (create_product int_prices empty_store
                  (bolt_request (JList [wq_entry (JStr ''not-an-id'') (JBool True)]))))
        = [Select_product_by_sku (JStr ''B-7''), Insert_product, Insert_inventory, Rollback]
   \<and> fst (create_product int_prices empty_store
                  (bolt_request (JList [wq_entry (JStr ''not-an-id'') (JBool True)])))
        = (Error ''type mismatch: inventory.warehouse_id'', 500)"
proof -
  have p: "int_prices (JInt 10) = Some 10" by (simp add: int_prices_def)
  have f: "''B-7'' \<notin> set (map prod_sku (products empty_store))" by (simp add: empty_store_def)
  have r: "fst (create_product int_prices empty_store
                  (bolt_request (JList [wq_entry (JStr ''not-an-id'') (JBool True)])))
        = (Error ''type mismatch: inventory.warehouse_id'', 500)"
    by (simp add: cp_eval_defs)
  from validation_accepts_untyped_entry[of int_prices 10 empty_store, OF p f] p f r
  show ?thesis by simp
qed


lemma transactional_write_refused:
  assumes np: "new_products s = []" and ni: "new_inventories s = []"
    and ins: "insert_product (working s) (name, sku, price) = Inl (IntegrityError m)"
  shows "fst (transactional_write s name sku price ws) = generic_400"
proof -
  obtain r s1 where fl: "session_flush (session_add s (name, sku, price)) = (r, s1)"
    by (cases "session_flush (session_add s (name, sku, price))") auto
  from session_flush_add(4)[OF np ni fl] ins have "r = Inl (IntegrityError m)" by simp
  with fl show ?thesis
    by (simp add: transactional_write_def handle_db_error_def generic_400_def)
qed

text \<open>
  C2 (as stated): when the store itself surfaces a duplicate-SKU violation, the
  operation answers 409. Below the pre-check finds nothing, a concurrent request
  then commits a product with the same SKU, the INSERT is refused with a uniqueness
  IntegrityError, and the answer is the generic 400 of line 91.
\<close>

theorem duplicate_sku_at_insert_counterexample:
  "fst (query_product_by_sku (new_session empty_store) (JStr ''B-7'')) = Inr None
   \<and> insert_product (empty_store\<lparr> products := [bolt_row] \<rparr>) (JStr ''Bolt'', JStr ''B-7'', 10)
       = Inl (IntegrityError ''UNIQUE constraint failed: product.sku'')
   \<and> fst (create_product_among int_prices (\<lambda>d. d\<lparr> products := products d @ [bolt_row] \<rparr>)
            empty_store (bolt_request (JList [wq_entry (JInt 1) (JInt 5)])))
       = (Error ''Database error, possibly invalid warehouse_id or duplicate entry.'', 400)
   \<and> trace (snd (create_product_among int_prices
                   (\<lambda>d. d\<lparr> products := products d @ [bolt_row] \<rparr>)
                   empty_store (bolt_request (JList [wq_entry (JInt 1) (JInt 5)]))))
       = [Select_product_by_sku (JStr ''B-7''), Insert_product, Rollback]"
  by (simp add: cp_eval_defs)

text \<open>
  C2 (amended): create-product answers 409 exactly when its own pre-check read finds
  the SKU (the request having passed the field and price checks); when instead the
  store refuses the product INSERT with an IntegrityError, a duplicate SKU included,
  the operation rolls back and answers the generic 400 that every other store
  constraint violation gets.
\<close>

theorem integrity_error_answer:
  assumes run: "create_product_among D others db rj = (resp, s')"
  shows "(snd resp = 409 \<longleftrightarrow>
            first_missing (request_data rj) required_fields = Inr None \<and>
            \<not> isl (parse_price D (request_data rj)) \<and>
            (\<exists>k. entry_field (request_data rj) ''sku'' = JStr k \<and>
                 k \<in> set (map prod_sku (products db))))
       \<and> ((\<exists>price ws m.
              first_missing (request_data rj) required_fields = Inr None \<and>
              parse_price D (request_data rj) = Inr price \<and>
              fst (query_product_by_sku (new_session db)
                     (entry_field (request_data rj) ''sku'')) = Inr None \<and>
              validate_warehouse_quantities
                (entry_field (request_data rj) ''warehouse_quantities'') = Inr ws \<and>
              insert_product (others db)
                (entry_field (request_data rj) ''name'', entry_field (request_data rj) ''sku'',
                 price) = Inl (IntegrityError m))
            \<longrightarrow> resp = generic_400 \<and> database s' = others db \<and> txn s' = None \<and>
                last (trace s') = Rollback)"
proof -
  let ?data = "request_data rj"
  let ?sku = "entry_field ?data ''sku''"
  let ?wq = "entry_field ?data ''warehouse_quantities''"
  let ?q = "fst (query_product_by_sku (new_session db) ?sku)"
  let ?s = "(prechecked db ?data)\<lparr> database := others db \<rparr>"
  let ?found = "\<exists>k. ?sku = JStr k \<and> k \<in> set (map prod_sku (products db))"
  have found: "(\<exists>p. ?q = Inr (Some p)) \<longleftrightarrow> ?found"
    using query_product_by_sku_found[of "new_session db" ?sku]
    by (simp only: working_new_session)
  from create_product_among_outcome[OF run]
  consider (early) "snd resp = 400 \<or> snd resp = 500"
        "first_missing ?data required_fields \<noteq> Inr None \<or> isl (parse_price D ?data)"
    | (query_failed) "resp = unhandled" "isl ?q"
    | (duplicate) "first_missing ?data required_fields = Inr None"
        "\<not> isl (parse_price D ?data)" "resp = (Error ''SKU must be unique.'', 409)"
        "\<exists>p. ?q = Inr (Some p)"
    | (bad_entries) "?q = Inr None" "validate_warehouse_quantities ?wq = Inl resp"
    | (writing) price ws where "?q = Inr None"
        "parse_price D ?data = Inr price"
        "validate_warehouse_quantities ?wq = Inr ws"
        "transactional_write ?s (entry_field ?data ''name'') ?sku price ws = (resp, s')"
    by blast
  then show ?thesis
  proof cases
    case early
    from early(1) have "snd resp \<noteq> 409" by auto
    moreover from early(2) have
      "\<not> (first_missing ?data required_fields = Inr None \<and> \<not> isl (parse_price D ?data))"
      by blast
    ultimately show ?thesis by auto
  next
    case query_failed
    from query_failed(1) have "snd resp \<noteq> 409" by (simp add: unhandled_def)
    moreover from query_failed(2) have "\<not> (\<exists>p. ?q = Inr (Some p))" "?q \<noteq> Inr None" by auto
    ultimately show ?thesis using found by auto
  next
    case duplicate
    from duplicate(3) have "snd resp = 409" by simp
    moreover from duplicate(4) have "?q \<noteq> Inr None" by auto
    ultimately show ?thesis using duplicate(1,2,4) found by auto
  next
    case bad_entries
    from validate_warehouse_quantities_status[OF bad_entries(2)] have "snd resp \<noteq> 409" by simp
    moreover from bad_entries(1) have "\<not> (\<exists>p. ?q = Inr (Some p))" by simp
    moreover from bad_entries(2) have "\<And>ws. validate_warehouse_quantities ?wq \<noteq> Inr ws" by simp
    ultimately show ?thesis using found by auto
  next
    case writing
    note c = transactional_write_cases[OF prechecked_write_fields(2,3) writing(4)]
    from c have st: "snd resp \<noteq> 409" by auto
    from writing(1) have nf: "\<not> ?found" using found by simp
    have second: "resp = generic_400 \<and> database s' = others db \<and> txn s' = None \<and>
                last (trace s') = Rollback"
      if ins: "insert_product (others db) (entry_field ?data ''name'', ?sku, price')
                 = Inl (IntegrityError m)"
        and pp: "parse_price D ?data = Inr price'" and v: "validate_warehouse_quantities ?wq = Inr ws'"
      for price' ws' m
    proof -
      from pp writing(2) have pe: "price' = price" by simp
      from v writing(3) have we: "ws' = ws" by simp
      have w: "working ?s = others db" by (rule prechecked_write_fields(4))
      from ins have ins': "insert_product (working ?s) (entry_field ?data ''name'', ?sku, price)
                 = Inl (IntegrityError m)"
        unfolding w pe .
      have "fst (transactional_write ?s (entry_field ?data ''name'') ?sku price ws) = generic_400"
        using prechecked_write_fields(2,3) ins' by (rule transactional_write_refused)
      with writing(4) have r: "resp = generic_400" by simp
      with c have "rolled_back ?s s'" by (auto simp: generic_400_def)
      with r show ?thesis by (simp add: rolled_back_def prechecked_write_fields)
    qed
    from st nf second show ?thesis by blast
  qed
qed

theorem integrity_error_answer_witness:
  "create_product_among int_prices (\<lambda>d. d\<lparr> products := products d @ [bolt_row] \<rparr>)
      empty_store (bolt_request (JList [wq_entry (JInt 1) (JInt 5)]))
   = (generic_400,
      \<lparr> database = empty_store\<lparr> products := [bolt_row] \<rparr>, txn = None, new_products = [],
        new_inventories = [],
        trace = [Select_product_by_sku (JStr ''B-7''), Insert_product, Rollback] \<rparr>)
   \<and> snd (fst (create_product_among int_prices (\<lambda>d. d)
                 (empty_store\<lparr> products := [bolt_row] \<rparr>)
                 (bolt_request (JList [wq_entry (JInt 1) (JInt 5)])))) = 409"
proof -
  let ?rj = "bolt_request (JList [wq_entry (JInt 1) (JInt 5)])"
  let ?others = "\<lambda>d :: int Database. d\<lparr> products := products d @ [bolt_row] \<rparr>"
  let ?r1 = "create_product_among int_prices ?others empty_store ?rj"
  let ?db2 = "empty_store\<lparr> products := [bolt_row] \<rparr>"
  let ?r2 = "create_product_among int_prices (\<lambda>d. d) ?db2 ?rj"
  have data: "request_data ?rj = ?rj" by (simp add: request_data_def bolt_request_def)
  have pre: "first_missing (request_data ?rj) required_fields = Inr None"
    "parse_price int_prices (request_data ?rj) = Inr 10"
    "entry_field (request_data ?rj) ''sku'' = JStr ''B-7''"
    "entry_field (request_data ?rj) ''name'' = JStr ''Bolt''"
    "validate_warehouse_quantities (entry_field (request_data ?rj) ''warehouse_quantities'')
       = Inr [wq_entry (JInt 1) (JInt 5)]"
    unfolding data
    by (simp_all add: bolt_request_def required_fields_def parse_price_def int_prices_def
        entry_field_def validate_warehouse_quantities_def wq_entry_rejected_def wq_entry_def)
  have q: "fst (query_product_by_sku (new_session empty_store) (JStr ''B-7'')) = Inr None"
    by (simp add: query_product_by_sku_def new_session_def working_def empty_store_def Let_def)
  have ins: "insert_product (?others empty_store) (JStr ''Bolt'', JStr ''B-7'', 10)
             = Inl (IntegrityError ''UNIQUE constraint failed: product.sku'')"
    by (simp add: insert_product_def empty_store_def bolt_row_def)
  have run1: "?r1 = (fst ?r1, snd ?r1)" by simp
  from integrity_error_answer[OF run1] pre q ins
  have a: "fst ?r1 = generic_400" by (simp only: ) blast
  have tr: "snd ?r1 = \<lparr> database = empty_store\<lparr> products := [bolt_row] \<rparr>, txn = None,
        new_products = [], new_inventories = [],
        trace = [Select_product_by_sku (JStr ''B-7''), Insert_product, Rollback] \<rparr>"
    by (simp add: cp_eval_defs)
  have run2: "?r2 = (fst ?r2, snd ?r2)" by simp
  have "\<exists>k. entry_field (request_data ?rj) ''sku'' = JStr k \<and>
             k \<in> set (map prod_sku (products ?db2))"
    unfolding pre(3) by (simp add: bolt_row_def)
  with integrity_error_answer[OF run2] pre(1,2) have b: "snd (fst ?r2) = 409" by simp
  from a tr b show ?thesis by (simp add: prod_eq_iff)
qed

end
